theory Spec2Isabelle
  imports Main "HOL-Library.Word"
begin

unbundle bit_operations_syntax

section \<open>Data model of \<^verbatim>\<open>byteps/common/common.h\<close>\<close>

text \<open>
  The enumerations are taken over constructor by constructor.  \<^verbatim>\<open>QueueType\<close> is the stage
  catalogue generated by \<^verbatim>\<open>BPS_FOREACH_QUEUE_NAME\<close>.
\<close>

datatype QueueType =
    COORDINATE_REDUCE | REDUCE | COPYD2H | PCIE_REDUCE | COORDINATE_PUSH | COMPRESS
  | PUSH | PULL | GDR_V1_PUSH_PULL | GDR_V2_PUSH_PULL | GDR_WAIT_PUSH_PULL | DECOMPRESS
  | COPYH2D | COORDINATE_BROADCAST | BROADCAST | SEND | RECV | P2P_GROUP_COPYH2D
  | P2P_PULL | P2P_PULL_RESPONSE | P2P_WAIT_ACK | CPU_COPY | CPU_REDUCE | CPU_BCAST
  | CPU_BCAST_FINISH | ALLGATHER | COORDINATE_ALLGATHER | ALLGATHER_PULL
  | ALLGATHER_PULL_RESP | ALLGATHER_BCAST | COORDINATE_ALLGATHER_BCAST
  | ALLGATHER_PULL_ACK | ALLGATHER_COPYD2H | ALLGATHER_COPYH2D
  | ALLGATHER_PULL_WORKER_LOCAL_ROOT | ALLGATHER_PULL_WORKER_LOCAL_ROOT_RESP
  | ALLGATHER_PULL_WORKER_LOCAL_ROOT_ACK

datatype OperationType = UNKNOWN_OP | PUSH_PULL_OP | P2P_OP | ALLTOALL_OP | ALLGATHER_OP

text \<open>The numeric value of an \<^verbatim>\<open>OperationType\<close> enumerator, as the key encoding uses it.\<close>

fun OperationType_value :: "OperationType \<Rightarrow> nat" where
  "OperationType_value UNKNOWN_OP = 0"
| "OperationType_value PUSH_PULL_OP = 1"
| "OperationType_value P2P_OP = 2"
| "OperationType_value ALLTOALL_OP = 3"
| "OperationType_value ALLGATHER_OP = 4"

datatype StatusType =
    OK | UNKNOWN_ERROR | PRECONDITION_ERROR | ABORTED | INVALID_ARGUMENT | IN_PROGRESS
  | DATA_LOSS

record Status =
  type_ :: StatusType
  reason_ :: string

definition Status_OK :: Status where
  "Status_OK = \<lparr>type_ = OK, reason_ = []\<rparr>"

definition InvalidArgument :: "string \<Rightarrow> Status" where
  "InvalidArgument message = \<lparr>type_ = INVALID_ARGUMENT, reason_ = message\<rparr>"

text \<open>
  A call that does not come back with a value ends in one of three ways: a failed
  \<^verbatim>\<open>BPS_CHECK\<close> aborts the process, \<^verbatim>\<open>std::vector::at\<close> throws, or the C++ is undefined
  (an unchecked index out of range, a signed overflow).
\<close>

datatype failure = CheckFailed | OutOfRange | UndefinedBehaviour

definition CPU_DEVICE_ID :: int where
  "CPU_DEVICE_ID = - 1"

text \<open>
  Buffers are modelled by what the scheduler can observe of them: the null pointer, a
  staging buffer of a given size, or an address inside the input tensor's data at a given
  byte offset.
\<close>

datatype buff = nullptr | staging nat | tensor_data nat

record Tensor =
  tensor_size :: nat
  tensor_has_data :: bool
  tensor_shape :: "int list"
  tensor_dtype :: int

record BPSContext =
  initialized :: bool
  tensor_name :: string
  base_tensor_name :: string
  declared_key :: int
  key_list :: "64 word list"
  cpubuff :: buff
  gpu_ptr :: buff
  pcie_cpubuff :: "buff list"
  numa_cpubuff :: "buff list"
  bounds_for_ranks :: "nat list"
  compressor_list :: "nat list"
  kwargs :: "(string \<times> string) list"
  cpubuff_list :: "buff list"
  sender :: int
  receiver :: int
  op_type :: OperationType

text \<open>
  \<^verbatim>\<open>TensorTableEntry\<close>: the fields the enqueue front-end writes.  \<^verbatim>\<open>key\<close> is left
  uninitialised by the constructor, hence optional; \<^verbatim>\<open>offset\<close>, \<^verbatim>\<open>len\<close> and
  \<^verbatim>\<open>total_partnum\<close> are \<^verbatim>\<open>unsigned int\<close>, so every store into them is reduced modulo
  \<open>2 ^ 32\<close>.  The tensor handles and the ready event are not modelled.  A callback is
  represented by an identifier, a compressor by the index of the partition it was created
  for, and a counter object by its initial value (\<open>None\<close>: the pointer is null).
\<close>

record TensorTableEntry =
  tensor_name_e :: string
  key :: "64 word option"
  priority :: int
  version :: int
  device :: int
  callback :: nat
  cpubuff_e :: buff
  gpu_ptr_e :: buff
  pcie_cpubuff_e :: "buff list"
  numa_cpubuff_e :: "buff list"
  queue_list :: "QueueType list"
  offset :: nat
  len :: nat
  counter_ptr :: "int option"
  push_pull_counter_ptr :: "int option"
  total_partnum :: nat
  compressor :: "nat option"

record P2PTensorTableEntry = TensorTableEntry +
  aux_output :: bool
  offset_list :: "int list"
  key_list_e :: "64 word list"
  shape_list :: "int list"
  request_counter :: "int option"
  allgather_pull_local_root_counter :: "int option"
  output_device :: int
  output_size_unknown_e :: bool

text \<open>A scheduled queue holds pointers to either kind of entry.\<close>

datatype task = Task TensorTableEntry | P2PTask P2PTensorTableEntry

text \<open>\<^verbatim>\<open>PSKV\<close>: the encoded key of a partition, its length list and its size.\<close>

record PSKV =
  keys :: "64 word list"
  lens :: "int list"
  pskv_size :: int

section \<open>Process-wide state (\<^verbatim>\<open>BytePSGlobal\<close>, \<^verbatim>\<open>global.cc\<close>)\<close>

text \<open>
  The static members of \<^verbatim>\<open>BytePSGlobal\<close> fall into two groups.  \<open>Knobs\<close> are the
  values fixed by \<^verbatim>\<open>Init\<close> from the environment and read through getters, together with
  the compile-time switches \<^verbatim>\<open>BYTEPS_BUILDING_CUDA\<close> and \<^verbatim>\<open>BYTEPS_BUILDING_COMPRESSOR\<close>.
  With them travel the functions of this repository whose code is not part of the sources
  at hand: the server's key composition, the session counter, the serialisation of
  compressor arguments, the parameter server's key ranges (\<open>krs\<close>), the number of buffers
  \<^verbatim>\<open>openPcieSharedMemory\<close> returns, and the one computation that goes through floating
  point (\<open>alltoall_buff_scaled\<close>, the product with \<^verbatim>\<open>_alltoall_buff_factor\<close>).

  \<open>string_hash\<close> stands for what the string hashes return.  \<^verbatim>\<open>Hash_BuiltIn\<close>,
  \<^verbatim>\<open>Hash_DJB2\<close> and \<^verbatim>\<open>Hash_SDBM\<close> read the characters behind
  \<^verbatim>\<open>std::to_string(key).c_str()\<close>, a pointer into a string that is destroyed before the
  first character is read.  The source does not determine the value, so it is a
  parameter, indexed by the number of assignments made so far: two reads for the same
  key need not agree.  \<^verbatim>\<open>Hash_Mixed_Mode\<close> hashes through \<^verbatim>\<open>Hash_DJB2\<close> and compares
  with a floating-point threshold under three checks; its outcome, a failed check or a
  server, is a parameter in the same way.
\<close>

record Knobs =
  partition_bytes :: "32 word"
  skip_input_copy :: bool
  num_phy_node :: int
  phy_node_id :: int
  rank :: int
  local_rank :: int
  local_size :: int
  world_size :: int
  num_server :: int
  is_root_device :: bool
  is_joint :: bool
  is_distributed :: bool
  is_gdr :: bool
  is_gdr_gpu2gpu :: bool
  gdr_phase1_threshold :: nat
  is_using_reduce :: bool
  alltoall_use_pull :: bool
  p2p_ack_disabled :: bool
  is_gdr_allgather :: bool
  cpu_allreduce_disabled :: bool
  gpu_allreduce_disabled :: bool
  cross_pcie_switch :: bool
  pcie_switch_num :: nat
  min_compress_bound :: nat
  nccl_is_signal_root :: bool
  building_cuda :: bool
  building_compressor :: bool
  alltoall_buff_bound :: "32 word"
  alltoall_buff_scaled :: "32 word \<Rightarrow> 32 word"
  session_size :: "32 word"
  GetSessionId :: "string \<Rightarrow> 64 word"
  ComposeAlltoallKey :: "int \<Rightarrow> int \<Rightarrow> 64 word"
  GetAlltoallTensorId :: "64 word \<Rightarrow> 64 word"
  Serialize :: "(string \<times> string) list \<Rightarrow> string"
  hash_knob :: string
  server_local_root :: int
  mixed_mode :: bool
  string_hash :: "nat \<Rightarrow> 64 word \<Rightarrow> 64 word"
  Hash_Mixed_Mode :: "nat \<Rightarrow> 64 word \<Rightarrow> failure + 64 word"
  krs :: "(64 word \<times> 64 word) list"

text \<open>
  The mutable part.  \<^verbatim>\<open>next_keys_\<close>, \<^verbatim>\<open>used_keys_\<close> and \<^verbatim>\<open>p2p_next_keys_\<close> are
  unordered maps read only through \<^verbatim>\<open>operator[]\<close>, which creates a missing entry as \<open>0\<close>
  or as the empty set: they are total functions, and a cleared map is the constant one.
  \<open>queues\<close> records, for each stage, the tasks handed to \<^verbatim>\<open>addTask\<close> in call order;
  \<open>invoked\<close> the callbacks run, with their status; \<open>error_callbacks\<close> the calls of
  \<^verbatim>\<open>BytePSError::RecordCallback\<close>; \<open>zpush_log\<close> the keys of the blocking pushes made
  during initialisation; the two ready tables count \<^verbatim>\<open>AddReadyCount\<close>; \<open>hash_reads\<close>
  counts the assignments made by \<^verbatim>\<open>EncodeDefaultKey\<close>, each of which hashes once;
  \<open>global_initialized\<close> is \<^verbatim>\<open>_initialized\<close>.
\<close>

record BytePSGlobal =
  global_initialized :: bool
  should_shutdown :: bool
  name_to_cxt :: "string \<rightharpoonup> BPSContext"
  declared_tensors :: "string list"
  next_keys :: "OperationType \<Rightarrow> int"
  used_keys :: "OperationType \<Rightarrow> int set"
  p2p_next_keys :: "int \<Rightarrow> nat"
  ps_kv :: "64 word \<rightharpoonup> PSKV"
  server_accumulated_len :: "nat list"
  total_accumulated_len :: nat
  hash_reads :: nat
  queues :: "QueueType \<Rightarrow> task list"
  invoked :: "(nat \<times> Status) list"
  error_callbacks :: "(64 word \<times> nat) list"
  zpush_log :: "64 word list"
  p2p_copy_table :: "64 word \<Rightarrow> nat"
  p2p_pull_response_table :: "64 word \<Rightarrow> nat"

definition GetPartitionBound :: "Knobs \<Rightarrow> nat" where
  "GetPartitionBound k = unat (partition_bytes k)"

definition GetPhyNodeNum :: "Knobs \<Rightarrow> int" where
  "GetPhyNodeNum k = num_phy_node k"

definition addTask :: "QueueType \<Rightarrow> task \<Rightarrow> BytePSGlobal \<Rightarrow> BytePSGlobal" where
  "addTask q t g = g\<lparr>queues := (queues g)(q := queues g q @ [t])\<rparr>"

definition invoke_callback :: "nat \<Rightarrow> Status \<Rightarrow> BytePSGlobal \<Rightarrow> BytePSGlobal" where
  "invoke_callback cb st g = g\<lparr>invoked := invoked g @ [(cb, st)]\<rparr>"

definition RecordCallback :: "64 word \<Rightarrow> nat \<Rightarrow> BytePSGlobal \<Rightarrow> BytePSGlobal" where
  "RecordCallback ky cb g = g\<lparr>error_callbacks := error_callbacks g @ [(ky, cb)]\<rparr>"

text \<open>Sequencing of calls that may fail.\<close>

definition and_then :: "failure + 'a \<Rightarrow> ('a \<Rightarrow> failure + 'b) \<Rightarrow> failure + 'b" where
  "and_then m f = (case m of Inl e \<Rightarrow> Inl e | Inr x \<Rightarrow> f x)"

text \<open>
  Arithmetic in \<^verbatim>\<open>int\<close> and \<^verbatim>\<open>int32_t\<close> is undefined when the result does not fit;
  a conversion to a narrower or unsigned type wraps.
\<close>

definition int32 :: "int \<Rightarrow> failure + int" where
  "int32 x = (if - (2 ^ 31) \<le> x \<and> x < 2 ^ 31 then Inr x else Inl UndefinedBehaviour)"

definition int64 :: "int \<Rightarrow> failure + int" where
  "int64 x = (if - (2 ^ 63) \<le> x \<and> x < 2 ^ 63 then Inr x else Inl UndefinedBehaviour)"

definition to_int32 :: "int \<Rightarrow> int" where
  "to_int32 x = sint (word_of_int x :: 32 word)"

definition to_uint32 :: "int \<Rightarrow> nat" where
  "to_uint32 x = unat (word_of_int x :: 32 word)"

section \<open>\<^verbatim>\<open>std::to_string\<close> and \<^verbatim>\<open>c_str\<close>\<close>

definition digit_char :: "nat \<Rightarrow> char" where
  "digit_char d = ''0123456789'' ! d"

function to_string :: "nat \<Rightarrow> string" where
  "to_string n = (if n < 10 then [digit_char n] else to_string (n div 10) @ [digit_char (n mod 10)])"
  by pat_completeness auto
termination
  by (relation "measure id") auto

declare to_string.simps [simp del]

definition to_string_int :: "int \<Rightarrow> string" where
  "to_string_int x = (if x < 0 then ''-'' @ to_string (nat (- x)) else to_string (nat x))"

text \<open>A \<^verbatim>\<open>std::string\<close> rebuilt from its \<^verbatim>\<open>c_str()\<close> ends at the first NUL character.\<close>

definition c_str :: "string \<Rightarrow> string" where
  "c_str name = takeWhile (\<lambda>c. c \<noteq> CHR 0x00) name"

section \<open>\<^verbatim>\<open>PartitionTensor\<close> (\<^verbatim>\<open>operations.cc\<close>)\<close>

text \<open>
  The body of the \<^verbatim>\<open>while (accumulated < size)\<close> loop builds one partition.  For an
  operation other than push-pull the staging buffer is read with \<^verbatim>\<open>cpubuff_list.at(i)\<close>,
  which throws out of range; \<^verbatim>\<open>compressor_list[i]\<close> is an unchecked index.  The partition
  counter \<^verbatim>\<open>i\<close> is an \<^verbatim>\<open>int\<close>: \<^verbatim>\<open>++i\<close> is undefined at \<^verbatim>\<open>INT_MAX\<close>.
\<close>

definition partition_cpubuff ::
  "Knobs \<Rightarrow> BPSContext \<Rightarrow> Tensor option \<Rightarrow> TensorTableEntry \<Rightarrow> nat \<Rightarrow> nat \<Rightarrow> failure + buff" where
  "partition_cpubuff k ctx tensor entry accumulated i =
     (if op_type ctx \<noteq> PUSH_PULL_OP then
        (if skip_input_copy k \<and> (case tensor of None \<Rightarrow> False | Some t \<Rightarrow> tensor_has_data t)
         then Inr (tensor_data accumulated)
         else if i < length (cpubuff_list ctx) then Inr (cpubuff_list ctx ! i)
         else Inl OutOfRange)
      else Inr (cpubuff_e entry))"

definition partition_compressor :: "BPSContext \<Rightarrow> nat \<Rightarrow> failure + nat option" where
  "partition_compressor ctx i =
     (if compressor_list ctx \<noteq> [] then
        (if i < length (compressor_list ctx) then Inr (Some (compressor_list ctx ! i))
         else Inl UndefinedBehaviour)
      else Inr None)"

definition partition_len :: "nat \<Rightarrow> nat \<Rightarrow> nat \<Rightarrow> nat" where
  "partition_len sz bound accumulated =
     (if sz - accumulated > bound then bound else sz - accumulated) mod 2 ^ 32"

definition make_partition ::
  "Knobs \<Rightarrow> TensorTableEntry \<Rightarrow> nat \<Rightarrow> nat \<Rightarrow> nat \<Rightarrow> nat \<Rightarrow> buff \<Rightarrow> nat option
     \<Rightarrow> TensorTableEntry" where
  "make_partition k entry sz bound accumulated i cb c =
     \<lparr>tensor_name_e = tensor_name_e entry @ ''_'' @ to_string i,
      key = None,
      priority = priority entry,
      version = version entry,
      device = device entry,
      callback = callback entry,
      cpubuff_e = cb,
      gpu_ptr_e = gpu_ptr_e entry,
      pcie_cpubuff_e = pcie_cpubuff_e entry,
      numa_cpubuff_e = numa_cpubuff_e entry,
      queue_list = queue_list entry,
      offset = accumulated mod 2 ^ 32,
      len = partition_len sz bound accumulated,
      counter_ptr = counter_ptr entry,
      push_pull_counter_ptr = Some (GetPhyNodeNum k - 1),
      total_partnum = total_partnum entry,
      compressor = c\<rparr>"

text \<open>
  The loop itself.  It need not terminate (a partition bound of zero adds nothing to
  \<^verbatim>\<open>accumulated\<close>), so it is a partial function: \<open>None\<close> is "does not return".
\<close>

partial_function (option) PartitionTensor_loop ::
  "Knobs \<Rightarrow> BPSContext \<Rightarrow> Tensor option \<Rightarrow> TensorTableEntry \<Rightarrow> nat \<Rightarrow> nat \<Rightarrow> nat \<Rightarrow> nat
     \<Rightarrow> TensorTableEntry list \<Rightarrow> (failure + TensorTableEntry list) option" where
  "PartitionTensor_loop k ctx tensor entry sz bound accumulated i partitions =
     (if accumulated < sz then
        (case partition_cpubuff k ctx tensor entry accumulated i of
           Inl f \<Rightarrow> Some (Inl f)
         | Inr cb \<Rightarrow>
            (case partition_compressor ctx i of
               Inl f \<Rightarrow> Some (Inl f)
             | Inr c \<Rightarrow>
                if 2 ^ 31 \<le> i + 1 then Some (Inl UndefinedBehaviour)
                else
                  PartitionTensor_loop k ctx tensor entry sz bound
                    (accumulated + partition_len sz bound accumulated) (i + 1)
                    (partitions @ [make_partition k entry sz bound accumulated i cb c])))
      else Some (Inr partitions))"

declare PartitionTensor_loop.simps [code]

text \<open>
  \<^verbatim>\<open>size\<close> is the input tensor's size when there is an input and the output's otherwise
  (dereferencing a null output is undefined).  \<^verbatim>\<open>PartitionTensor\<close> begins with
  \<^verbatim>\<open>BPS_CHECK(entry->counter_ptr)\<close>.
\<close>

definition entry_size :: "Tensor option \<Rightarrow> Tensor option \<Rightarrow> failure + nat" where
  "entry_size tensor output =
     (case tensor of
        Some t \<Rightarrow> Inr (tensor_size t)
      | None \<Rightarrow> (case output of Some t \<Rightarrow> Inr (tensor_size t) | None \<Rightarrow> Inl UndefinedBehaviour))"

definition PartitionTensor ::
  "Knobs \<Rightarrow> BPSContext \<Rightarrow> Tensor option \<Rightarrow> Tensor option \<Rightarrow> TensorTableEntry
     \<Rightarrow> (failure + TensorTableEntry list) option" where
  "PartitionTensor k ctx tensor output entry =
     (if counter_ptr entry = None then Some (Inl CheckFailed)
      else
        (case entry_size tensor output of
           Inl f \<Rightarrow> Some (Inl f)
         | Inr sz \<Rightarrow>
             PartitionTensor_loop k ctx tensor entry sz (GetPartitionBound k) 0 0 []))"

section \<open>The context table: declarations (\<^verbatim>\<open>global.cc\<close>)\<close>

text \<open>
  \<^verbatim>\<open>provided_key = next_keys_[op_type]++; while (used_key_set.find(provided_key) != ...)
  provided_key = next_keys_[op_type]++;\<close>  The function returns the key found and the new
  value of the counter.  Incrementing the counter at \<^verbatim>\<open>INT32_MAX\<close> is a signed overflow.
\<close>

function generate_key :: "int \<Rightarrow> int set \<Rightarrow> failure + (int \<times> int)" where
  "generate_key nxt used =
     (if nxt < - (2 ^ 31) \<or> 2 ^ 31 - 1 \<le> nxt then Inl UndefinedBehaviour
      else if nxt \<in> used then generate_key (nxt + 1) used
      else Inr (nxt, nxt + 1))"
  by pat_completeness auto
termination
  by (relation "measure (\<lambda>(nxt, used). nat (2 ^ 31 - nxt))") auto

declare generate_key.simps [simp del]

definition new_context :: "string \<Rightarrow> string \<Rightarrow> int \<Rightarrow> OperationType \<Rightarrow> BPSContext" where
  "new_context tname bname dkey op =
     \<lparr>initialized = False, tensor_name = tname, base_tensor_name = bname, declared_key = dkey,
      key_list = [], cpubuff = nullptr, gpu_ptr = nullptr, pcie_cpubuff = [],
      numa_cpubuff = [], bounds_for_ranks = [], compressor_list = [], kwargs = [],
      cpubuff_list = [], sender = - 1, receiver = - 1, op_type = op\<rparr>"

definition session_tensor_name :: "string \<Rightarrow> int \<Rightarrow> string" where
  "session_tensor_name name session =
     (if session \<noteq> - 1 then ''session_'' @ to_string_int session @ ''_'' @ c_str name
      else c_str name)"

definition DeclareTensor ::
  "string \<Rightarrow> OperationType \<Rightarrow> int \<Rightarrow> int \<Rightarrow> BytePSGlobal \<Rightarrow> failure + (int \<times> BytePSGlobal)" where
  "DeclareTensor name op provided_key session g =
     (let tname = session_tensor_name name session in
      case name_to_cxt g tname of
        Some ctx \<Rightarrow> Inr (declared_key ctx, g)
      | None \<Rightarrow>
          (let declared = (if name \<notin> set (declared_tensors g) then declared_tensors g @ [tname]
                           else declared_tensors g);
               used_key_set = used_keys g op in
           case (if provided_key = - 1 then generate_key (next_keys g op) used_key_set
                 else if provided_key \<in> used_key_set then Inl CheckFailed
                 else Inr (provided_key, next_keys g op)) of
             Inl f \<Rightarrow> Inl f
           | Inr (ky, nxt) \<Rightarrow>
               Inr (ky,
                    g\<lparr>declared_tensors := declared,
                      name_to_cxt := (name_to_cxt g)(tname \<mapsto> new_context tname (c_str name) ky op),
                      next_keys := (next_keys g)(op := nxt),
                      used_keys := (used_keys g)(op := insert ky used_key_set)\<rparr>)))"

text \<open>
  \<^verbatim>\<open>DeclareP2PTensor\<close>: a key space of its own for every pair of sender and receiver.
  The pair is computed as \<^verbatim>\<open>(sender << 16) + receiver\<close> in \<^verbatim>\<open>int\<close>; the counter is an
  \<^verbatim>\<open>unsigned int\<close> stored into the \<^verbatim>\<open>int32_t\<close> key.
\<close>

definition DeclareP2PTensor ::
  "string \<Rightarrow> int \<Rightarrow> int \<Rightarrow> BytePSGlobal \<Rightarrow> failure + (int \<times> BytePSGlobal)" where
  "DeclareP2PTensor name sender' receiver' g =
     (case name_to_cxt g name of
        Some ctx \<Rightarrow> Inr (declared_key ctx, g)
      | None \<Rightarrow>
          (let declared = (if name \<notin> set (declared_tensors g) then declared_tensors g @ [name]
                           else declared_tensors g) in
           if sender' < 0 then Inl UndefinedBehaviour
           else
             and_then (int32 (sender' * 2 ^ 16)) (\<lambda>shifted.
             and_then (int32 (shifted + receiver')) (\<lambda>send_recv_pair.
               if sender' = receiver' then Inl CheckFailed
               else
                 (let ky = to_int32 (int (p2p_next_keys g send_recv_pair)) in
                  Inr (ky,
                       g\<lparr>declared_tensors := declared,
                         name_to_cxt := (name_to_cxt g)
                           (name \<mapsto> (new_context (c_str name) (c_str name) ky P2P_OP)
                                      \<lparr>sender := sender', receiver := receiver'\<rparr>),
                         p2p_next_keys := (p2p_next_keys g)
                           (send_recv_pair :=
                              (p2p_next_keys g send_recv_pair + 1) mod 2 ^ 32)\<rparr>))))))"

text \<open>\<^verbatim>\<open>RegisterCompressor\<close> attaches the compressor arguments to a declared tensor.\<close>

definition RegisterCompressor ::
  "string \<Rightarrow> (string \<times> string) list \<Rightarrow> BytePSGlobal \<Rightarrow> failure + BytePSGlobal" where
  "RegisterCompressor name kw g =
     (case name_to_cxt g name of
        None \<Rightarrow> Inl CheckFailed
      | Some ctx \<Rightarrow> Inr (g\<lparr>name_to_cxt := (name_to_cxt g)(name \<mapsto> ctx\<lparr>kwargs := kw\<rparr>)\<rparr>))"


text \<open>
  \<^verbatim>\<open>ReDeclareTensor\<close> walks \<^verbatim>\<open>_declared_tensors\<close>.  Every name it passes is in that
  vector already, so no call appends to it while it is being iterated.
\<close>

primrec ReDeclareTensor_loop :: "string list \<Rightarrow> BytePSGlobal \<Rightarrow> failure + BytePSGlobal" where
  "ReDeclareTensor_loop [] g = Inr g"
| "ReDeclareTensor_loop (name # names) g =
     (case DeclareTensor name PUSH_PULL_OP (- 1) (- 1) g of
        Inl f \<Rightarrow> Inl f
      | Inr (ky, g') \<Rightarrow> ReDeclareTensor_loop names g')"

definition ReDeclareTensor :: "BytePSGlobal \<Rightarrow> failure + BytePSGlobal" where
  "ReDeclareTensor g = ReDeclareTensor_loop (declared_tensors g) g"

definition GetContextFromName :: "string \<Rightarrow> BytePSGlobal \<Rightarrow> failure + BPSContext" where
  "GetContextFromName name g =
     (case name_to_cxt g name of None \<Rightarrow> Inl CheckFailed | Some ctx \<Rightarrow> Inr ctx)"

text \<open>
  \<^verbatim>\<open>BytePSGlobal::Shutdown\<close>: the flag is raised, the stage threads are joined, queues
  and tables are deleted, and the state is reset.  The model is the state it leaves
  behind: \<^verbatim>\<open>_name_to_cxt\<close>, \<^verbatim>\<open>_server_accumulated_len\<close>, \<^verbatim>\<open>ps_kv_\<close> and \<^verbatim>\<open>next_keys_\<close>
  are cleared, \<^verbatim>\<open>_initialized\<close> is reset and the flag is lowered again;
  \<^verbatim>\<open>_declared_tensors\<close>, \<^verbatim>\<open>used_keys_\<close> and \<^verbatim>\<open>p2p_next_keys_\<close> are not touched.
\<close>

definition Shutdown :: "BytePSGlobal \<Rightarrow> BytePSGlobal" where
  "Shutdown g =
     g\<lparr>queues := (\<lambda>q. []), name_to_cxt := Map.empty, server_accumulated_len := [],
       total_accumulated_len := 0, ps_kv := Map.empty, next_keys := (\<lambda>op. 0),
       global_initialized := False, should_shutdown := False\<rparr>"

text \<open>
  \<^verbatim>\<open>BytePSGlobal::Init\<close> does nothing when \<^verbatim>\<open>_initialized\<close> is set.  Otherwise it reads
  the environment into the static members collected in \<open>Knobs\<close> (hence the new knobs are
  its argument), creates the queues, and, of the mutable state modelled here, appends
  one zero to \<^verbatim>\<open>_server_accumulated_len\<close> for each server of a distributed job.  It does
  not touch the declaration tables.
\<close>

definition Init :: "Knobs \<Rightarrow> BytePSGlobal \<Rightarrow> BytePSGlobal" where
  "Init k g =
     (if global_initialized g then g
      else
        g\<lparr>server_accumulated_len :=
            (if is_distributed k
             then server_accumulated_len g @ replicate (nat (num_server k)) 0
             else server_accumulated_len g),
          global_initialized := True\<rparr>)"

text \<open>
  \<^verbatim>\<open>byteps_init\<close> is \<^verbatim>\<open>Init\<close> followed by the start of the stage threads;
  \<^verbatim>\<open>byteps_suspend\<close> is \<^verbatim>\<open>Shutdown\<close>; \<^verbatim>\<open>byteps_resume\<close> initialises again and replays
  the declarations.
\<close>

definition byteps_init :: "Knobs \<Rightarrow> BytePSGlobal \<Rightarrow> BytePSGlobal" where
  "byteps_init k g = Init k g"

definition byteps_suspend :: "BytePSGlobal \<Rightarrow> BytePSGlobal" where
  "byteps_suspend g = Shutdown g"

definition byteps_resume :: "Knobs \<Rightarrow> BytePSGlobal \<Rightarrow> failure + BytePSGlobal" where
  "byteps_resume k g = ReDeclareTensor (byteps_init k g)"

section \<open>The key encoder (\<^verbatim>\<open>global.cc\<close>)\<close>

text \<open>
  \<^verbatim>\<open>Hash_Naive\<close> is arithmetic on the key.  The other hashes are \<open>string_hash\<close> and
  \<open>Hash_Mixed_Mode\<close> of the knobs, read at the current count of assignments.
\<close>

definition Hash_Naive :: "64 word \<Rightarrow> 64 word" where
  "Hash_Naive ky = (drop_bit 16 ky + ky mod 65536) * 9973"

text \<open>
  The choice of the server in \<^verbatim>\<open>EncodeDefaultKey\<close>, by \<^verbatim>\<open>_hash_knob\<close>.  A 64-bit hash
  is reduced modulo an \<^verbatim>\<open>int\<close> converted to 64 bits and stored into an \<^verbatim>\<open>int\<close>.
\<close>

definition hash_mod :: "64 word \<Rightarrow> int \<Rightarrow> failure + int" where
  "hash_mod h n =
     (if (word_of_int n :: 64 word) = 0 then Inl UndefinedBehaviour
      else Inr (to_int32 (uint (h mod word_of_int n))))"

definition pick_server :: "Knobs \<Rightarrow> nat \<Rightarrow> 64 word \<Rightarrow> failure + int" where
  "pick_server k reads ky =
     (let num_servers = int (length (krs k)) in
      if hash_knob k = ''naive'' then hash_mod (Hash_Naive ky) num_servers
      else if hash_knob k = ''built_in'' then hash_mod (string_hash k reads ky) num_servers
      else if hash_knob k = ''djb2'' then hash_mod (string_hash k reads ky) num_servers
      else if hash_knob k = ''djb2-colocate'' then
        and_then (hash_mod (string_hash k reads ky) (num_phy_node k)) (\<lambda>server.
        and_then (int32 (server * local_size k)) (\<lambda>scaled.
          int32 (scaled + server_local_root k)))
      else if hash_knob k = ''sdbm'' then hash_mod (string_hash k reads ky) num_servers
      else if hash_knob k = ''mixed'' then
        (if \<not> mixed_mode k then Inl CheckFailed
         else
           and_then (Hash_Mixed_Mode k reads ky) (\<lambda>h.
             (let server = to_int32 (uint h) in
              if \<not> server < num_servers then Inl CheckFailed else Inr server)))
      else Inl CheckFailed)"

text \<open>
  \<^verbatim>\<open>EncodeDefaultKey\<close>.  \<^verbatim>\<open>ps_kv_[key]\<close> creates an entry with no keys when there is
  none; an entry with keys is a memoised assignment, of which only the length is updated.
\<close>

definition EncodeDefaultKey ::
  "Knobs \<Rightarrow> 64 word \<Rightarrow> nat \<Rightarrow> BytePSGlobal \<Rightarrow> failure + (PSKV \<times> BytePSGlobal)" where
  "EncodeDefaultKey k ky ln g =
     (let pskv = (case ps_kv g ky of
                    None \<Rightarrow> \<lparr>keys = [], lens = [], pskv_size = 0\<rparr>
                  | Some p \<Rightarrow> p) in
      if keys pskv \<noteq> [] then
        (if ln > 0 \<and> nat (pskv_size pskv mod 2 ^ 64) \<noteq> ln then
           (if lens pskv = [] then Inl UndefinedBehaviour
            else
              (let pskv' = pskv\<lparr>pskv_size := to_int32 (int ln),
                                lens := (lens pskv)[0 := to_int32 (int ln)]\<rparr> in
               Inr (pskv', g\<lparr>ps_kv := (ps_kv g)(ky \<mapsto> pskv')\<rparr>)))
         else Inr (pskv, g))
      else
        (let num_servers = int (length (krs k)) in
         if \<not> num_servers > 0 then Inl CheckFailed
         else
           (case pick_server k (hash_reads g) ky of
              Inl f \<Rightarrow> Inl f
            | Inr server \<Rightarrow>
                if server < 0 \<or> \<not> nat server < length (server_accumulated_len g)
                  then Inl UndefinedBehaviour
                else if \<not> server < num_servers then Inl UndefinedBehaviour
                else
                  (let ps_key = fst (krs k ! nat server) + ky in
                   if \<not> ps_key < snd (krs k ! nat server) then Inl CheckFailed
                   else
                     (let pskv' = \<lparr>keys = [ps_key], lens = [to_int32 (int ln)],
                                   pskv_size = to_int32 (int ln)\<rparr> in
                      Inr (pskv',
                           g\<lparr>ps_kv := (ps_kv g)(ky \<mapsto> pskv'),
                             server_accumulated_len :=
                               (server_accumulated_len g)
                                 [nat server :=
                                    (server_accumulated_len g ! nat server + ln) mod 2 ^ 64],
                             total_accumulated_len :=
                               (total_accumulated_len g + ln) mod 2 ^ 64,
                             hash_reads := hash_reads g + 1\<rparr>))))))"

text \<open>A run of calls of \<^verbatim>\<open>EncodeDefaultKey\<close>, each with its key and length.\<close>

primrec EncodeDefaultKey_calls ::
  "Knobs \<Rightarrow> (64 word \<times> nat) list \<Rightarrow> BytePSGlobal \<Rightarrow> failure + BytePSGlobal" where
  "EncodeDefaultKey_calls k [] g = Inr g"
| "EncodeDefaultKey_calls k (c # cs) g =
     (case EncodeDefaultKey k (fst c) (snd c) g of
        Inl f \<Rightarrow> Inl f
      | Inr r \<Rightarrow> EncodeDefaultKey_calls k cs (snd r))"

section \<open>\<^verbatim>\<open>InitTensor\<close> and \<^verbatim>\<open>InitTensorP2P\<close> (\<^verbatim>\<open>operations.cc\<close>)\<close>

text \<open>
  Both functions fill \<^verbatim>\<open>context.key_list\<close> with the same loop:
  \<^verbatim>\<open>while (accumulated < size) { key_list.push_back(start_key++); accumulated += ...; }\<close>
  on \<^verbatim>\<open>size_t\<close> and \<^verbatim>\<open>uint64_t\<close>.  \<^verbatim>\<open>accumulated\<close> never exceeds \<^verbatim>\<open>size\<close>, so it is a
  natural number; the key wraps as a 64-bit word.
\<close>

partial_function (option) InitTensor_key_loop ::
  "nat \<Rightarrow> nat \<Rightarrow> nat \<Rightarrow> 64 word \<Rightarrow> 64 word list \<Rightarrow> (64 word list) option" where
  "InitTensor_key_loop sz bound accumulated start_key kl =
     (if accumulated < sz then
        InitTensor_key_loop sz bound
          (accumulated + (if sz - accumulated > bound then bound else sz - accumulated))
          (start_key + 1) (kl @ [start_key])
      else Some kl)"

declare InitTensor_key_loop.simps [code]

text \<open>
  \<^verbatim>\<open>ps::Key start_key = context.declared_key << 16;\<close> shifts an \<^verbatim>\<open>int32_t\<close> as an
  \<^verbatim>\<open>int\<close> and converts the result to 64 bits afterwards, with sign extension.  Where the
  shifted value leaves the range of \<^verbatim>\<open>int\<close> the model wraps it in two's complement.
  \<^verbatim>\<open>start_key += (uint32_t) PUSH_PULL_OP << 10;\<close> adds the operation tag.
\<close>

definition InitTensor_start_key :: "int \<Rightarrow> 64 word" where
  "InitTensor_start_key d =
     scast (push_bit 16 (word_of_int d :: 32 word))
       + ucast (push_bit 10 (of_nat (OperationType_value PUSH_PULL_OP) :: 32 word))"

text \<open>
  \<^verbatim>\<open>Align\<close> (\<^verbatim>\<open>common.h\<close>) rounds a size up to a multiple of
  \<^verbatim>\<open>getDataTypeLength(dtype) * getDataTypeLength(dtype) * 8\<close>.  The length of the element
  type is an argument of the model, \<^verbatim>\<open>getDataTypeLength\<close> being defined elsewhere.
\<close>

definition Align :: "nat \<Rightarrow> int \<Rightarrow> failure + nat" where
  "Align sz dtype_len =
     and_then (int32 (dtype_len * dtype_len)) (\<lambda>sq.
     and_then (int32 (sq * 8)) (\<lambda>m.
       (let min_size = nat (m mod 2 ^ 64) in
        if min_size = 0 then Inl UndefinedBehaviour
        else Inr ((sz + (min_size - sz mod min_size) mod min_size) mod 2 ^ 64))))"

text \<open>
  The staging buffers of \<^verbatim>\<open>InitTensor\<close>: across PCIe switches, for a CPU tensor, or
  for a GPU tensor outside GDR.  The result is \<^verbatim>\<open>pcie_cpubuff\<close>, \<^verbatim>\<open>numa_cpubuff\<close> and
  \<^verbatim>\<open>cpubuff\<close>.
\<close>

definition InitTensor_buffers ::
  "Knobs \<Rightarrow> BPSContext \<Rightarrow> bool \<Rightarrow> nat \<Rightarrow> failure + (buff list \<times> buff list \<times> buff)" where
  "InitTensor_buffers k context cpubuff_given aligned_size =
     (if cross_pcie_switch k then
        (if \<not> (cpu_allreduce_disabled k \<or> \<not> cpubuff_given) then Inl CheckFailed
         else if pcie_switch_num k = 0 then Inl UndefinedBehaviour
         else Inr (replicate (pcie_switch_num k) (staging aligned_size), numa_cpubuff context,
                   staging aligned_size))
      else if cpubuff_given then
        (let numa = numa_cpubuff context @ replicate (nat (local_size k)) (staging aligned_size) in
         if local_rank k < 0 \<or> \<not> nat (local_rank k) < length numa then Inl UndefinedBehaviour
         else Inr (pcie_cpubuff context, numa, numa ! nat (local_rank k)))
      else if \<not> is_gdr k then Inr (pcie_cpubuff context, numa_cpubuff context, staging aligned_size)
      else Inr (pcie_cpubuff context, numa_cpubuff context, cpubuff context))"

text \<open>
  The registration loop of \<^verbatim>\<open>InitTensor\<close>: for each partition, when the job is
  distributed and this rank pushes, encode the key, push the partition to its server and
  create a compressor if compressor arguments are set.  \<^verbatim>\<open>len\<close> is an \<^verbatim>\<open>int\<close>; it is
  converted to \<^verbatim>\<open>size_t\<close> for \<^verbatim>\<open>EncodeDefaultKey\<close> and added to \<^verbatim>\<open>accumulated\<close>.
\<close>

partial_function (option) InitTensor_register ::
  "Knobs \<Rightarrow> bool \<Rightarrow> bool \<Rightarrow> 64 word list \<Rightarrow> nat \<Rightarrow> nat \<Rightarrow> nat \<Rightarrow> nat \<Rightarrow> nat list \<Rightarrow> BytePSGlobal
     \<Rightarrow> (failure + (nat \<times> nat \<times> nat list \<times> BytePSGlobal)) option" where
  "InitTensor_register k push make_compressor kl sz bound accumulated i compressors g =
     (if accumulated < sz then
        (if \<not> i < length kl then Some (Inl UndefinedBehaviour)
         else
           (let ln = to_int32 (int (if sz - accumulated > bound then bound else sz - accumulated));
                accumulated' = nat ((int accumulated + ln) mod 2 ^ 64) in
            if push then
              (case EncodeDefaultKey k (kl ! i) (nat (ln mod 2 ^ 64)) g of
                 Inl f \<Rightarrow> Some (Inl f)
               | Inr r \<Rightarrow>
                   InitTensor_register k push make_compressor kl sz bound accumulated' (i + 1)
                     (if make_compressor then compressors @ [i] else compressors)
                     ((snd r)\<lparr>zpush_log := zpush_log (snd r) @ keys (fst r)\<rparr>))
            else
              InitTensor_register k push make_compressor kl sz bound accumulated' (i + 1)
                compressors g))
      else Some (Inr (accumulated, i, compressors, g)))"

declare InitTensor_register.simps [code]

text \<open>The second pass: the serialised compressor arguments are pushed under every key.\<close>

primrec InitTensor_push_kwargs ::
  "Knobs \<Rightarrow> 64 word list \<Rightarrow> nat \<Rightarrow> BytePSGlobal \<Rightarrow> failure + BytePSGlobal" where
  "InitTensor_push_kwargs k [] ln g = Inr g"
| "InitTensor_push_kwargs k (ky # kys) ln g =
     (case EncodeDefaultKey k ky ln g of
        Inl f \<Rightarrow> Inl f
      | Inr r \<Rightarrow>
          InitTensor_push_kwargs k kys ln ((snd r)\<lparr>zpush_log := zpush_log (snd r) @ keys (fst r)\<rparr>))"

text \<open>
  \<^verbatim>\<open>InitTensor\<close>.  \<open>cpubuff_given\<close> says whether the \<^verbatim>\<open>cpubuff\<close> argument is non-null,
  that is, whether the tensor itself is on the CPU.  (The CUDA device selection, the
  CUDA events and the profiling flag are not modelled.)
\<close>

definition InitTensor ::
  "Knobs \<Rightarrow> BPSContext \<Rightarrow> nat \<Rightarrow> int \<Rightarrow> bool \<Rightarrow> BytePSGlobal
     \<Rightarrow> (failure + BPSContext \<times> BytePSGlobal) option" where
  "InitTensor k context sz dtype_len cpubuff_given g =
     (let bound = GetPartitionBound k in
      if initialized context then Some (Inr (context, g))
      else if \<not> sz > 0 then Some (Inl CheckFailed)
      else
        (case InitTensor_key_loop sz bound 0 (InitTensor_start_key (declared_key context))
                (key_list context) of
           None \<Rightarrow> None
         | Some kl \<Rightarrow>
            if \<not> length kl > 0 then Some (Inl CheckFailed)
            else if bound = 0 then Some (Inl UndefinedBehaviour)
            else if length kl \<noteq> ((sz + bound - 1) mod 2 ^ 64) div bound then Some (Inl CheckFailed)
            else if cpubuff_given \<and> cpu_allreduce_disabled k then Some (Inl CheckFailed)
            else if \<not> cpubuff_given \<and> \<not> (is_gdr k \<or> \<not> gpu_allreduce_disabled k)
              then Some (Inl CheckFailed)
            else
              (case and_then (Align sz dtype_len) (InitTensor_buffers k context cpubuff_given) of
                 Inl f \<Rightarrow> Some (Inl f)
               | Inr (pcie, numa, cb) \<Rightarrow>
                  (let kw = (if sz < min_compress_bound k then [] else kwargs context);
                       should_init_push = (is_root_device k \<and> (cpubuff_given \<or> \<not> is_gdr k));
                       push = (is_distributed k \<and> should_init_push) in
                   case InitTensor_register k push (building_compressor k \<and> kw \<noteq> []) kl sz bound
                          0 0 (compressor_list context) g of
                     None \<Rightarrow> None
                   | Some (Inl f) \<Rightarrow> Some (Inl f)
                   | Some (Inr (accumulated, i, compressors, g1)) \<Rightarrow>
                       if i \<noteq> length kl then Some (Inl CheckFailed)
                       else if accumulated \<noteq> sz then Some (Inl CheckFailed)
                       else
                         (case (if kw \<noteq> [] \<and> push
                                then InitTensor_push_kwargs k kl (length (Serialize k kw)) g1
                                else Inr g1) of
                            Inl f \<Rightarrow> Some (Inl f)
                          | Inr g2 \<Rightarrow>
                              Some (Inr (context\<lparr>key_list := kl,
                                                 gpu_ptr := (if cpubuff_given then nullptr
                                                             else gpu_ptr context),
                                                 pcie_cpubuff := pcie, numa_cpubuff := numa,
                                                 cpubuff := cb, kwargs := kw,
                                                 compressor_list := compressors,
                                                 initialized := True\<rparr>, g2)))))))"

text \<open>\<^verbatim>\<open>BytePSGlobal::EncodeP2PKey\<close> (\<^verbatim>\<open>global.cc\<close>): the key goes to the receiver's server.\<close>

definition EncodeP2PKey :: "Knobs \<Rightarrow> 64 word \<Rightarrow> nat \<Rightarrow> int \<Rightarrow> failure + PSKV" where
  "EncodeP2PKey k ky ln receiver' =
     (let num_servers = int (length (krs k)); server = receiver' in
      if \<not> num_servers > 0 then Inl CheckFailed
      else if \<not> server < num_servers then Inl CheckFailed
      else if server < 0 then Inl UndefinedBehaviour
      else
        (let ps_key = fst (krs k ! nat server) + ky in
         if \<not> ps_key < snd (krs k ! nat server) then Inl CheckFailed
         else Inr \<lparr>keys = [ps_key], lens = [to_int32 (int ln)], pskv_size = to_int32 (int ln)\<rparr>))"

text \<open>
  The buffer loop of \<^verbatim>\<open>InitTensorP2P\<close>: one staging buffer per key, opened and pushed
  only by a sender that is not its own receiver.  \<^verbatim>\<open>len\<close> is an \<^verbatim>\<open>int\<close> added to a
  \<^verbatim>\<open>size_t\<close>.
\<close>

primrec InitTensorP2P_buffers ::
  "Knobs \<Rightarrow> 64 word list \<Rightarrow> nat \<Rightarrow> nat \<Rightarrow> int \<Rightarrow> int \<Rightarrow> nat \<Rightarrow> buff list \<Rightarrow> BytePSGlobal
     \<Rightarrow> failure + (nat \<times> buff list \<times> BytePSGlobal)" where
  "InitTensorP2P_buffers k [] sz bound sender' receiver' accumulated bufs g =
     Inr (accumulated, bufs, g)"
| "InitTensorP2P_buffers k (ky # kl) sz bound sender' receiver' accumulated bufs g =
     (let remaining = nat ((int sz - int accumulated) mod 2 ^ 64);
          ln = to_int32 (int (if remaining > bound then bound else remaining)) in
      case EncodeP2PKey k ky bound receiver' of
        Inl f \<Rightarrow> Inl f
      | Inr pskv \<Rightarrow>
          if sender' = rank k \<and> sender' \<noteq> receiver' then
            InitTensorP2P_buffers k kl sz bound sender' receiver'
              (nat ((int accumulated + ln) mod 2 ^ 64)) (bufs @ [staging bound])
              (g\<lparr>zpush_log := zpush_log g @ keys pskv\<rparr>)
          else
            InitTensorP2P_buffers k kl sz bound sender' receiver'
              (nat ((int accumulated + ln) mod 2 ^ 64)) (bufs @ [nullptr]) g)"

definition InitTensorP2P_start_key :: "int \<Rightarrow> int \<Rightarrow> 64 word" where
  "InitTensorP2P_start_key sender' d =
     push_bit 32 (word_of_int sender' :: 64 word)
       + push_bit 16 (word_of_int d :: 64 word)
       + ucast (push_bit 10 (of_nat (OperationType_value P2P_OP) :: 32 word))"

definition InitTensorP2P ::
  "Knobs \<Rightarrow> BPSContext \<Rightarrow> nat \<Rightarrow> int \<Rightarrow> int \<Rightarrow> BytePSGlobal
     \<Rightarrow> (failure + BPSContext \<times> BytePSGlobal) option" where
  "InitTensorP2P k context sz sender0 receiver0 g =
     (let bound = GetPartitionBound k in
      if \<not> is_joint k then Some (Inl CheckFailed)
      else if \<not> sz > 0 then Some (Inl CheckFailed)
      else if initialized context then
        (if bound = 0 then Some (Inl UndefinedBehaviour)
         else if int (length (key_list context))
                 \<noteq> to_int32 (int (((sz + bound - 1) mod 2 ^ 64) div bound)) mod 2 ^ 64
           then Some (Inl CheckFailed)
         else Some (Inr (context, g)))
      else
        (let sender' = (if sender0 = - 1 then rank k else sender0);
             receiver' = (if receiver0 = - 1 then rank k else receiver0) in
         case InitTensor_key_loop sz bound 0
                (InitTensorP2P_start_key sender' (declared_key context)) (key_list context) of
           None \<Rightarrow> None
         | Some kl \<Rightarrow>
            if \<not> is_distributed k then Some (Inl CheckFailed)
            else
              (case InitTensorP2P_buffers k kl sz bound sender' receiver' 0 [] g of
                 Inl f \<Rightarrow> Some (Inl f)
               | Inr (accumulated, bufs, g') \<Rightarrow>
                   if accumulated \<noteq> sz then Some (Inl CheckFailed)
                   else Some (Inr (context\<lparr>key_list := kl, gpu_ptr := nullptr, cpubuff := nullptr,
                                      cpubuff_list := cpubuff_list context @ bufs,
                                      initialized := True\<rparr>, g')))))"

section \<open>\<^verbatim>\<open>EnqueueTensor\<close> (\<^verbatim>\<open>operations.cc\<close>)\<close>

text \<open>
  \<^verbatim>\<open>std::find\<close> gives the position of the first occurrence, or the end;
  \<^verbatim>\<open>vector::insert\<close> needs a position inside the vector or at its end.
\<close>

definition find_stage :: "QueueType \<Rightarrow> QueueType list \<Rightarrow> nat" where
  "find_stage q ql = length (takeWhile (\<lambda>x. x \<noteq> q) ql)"

definition insert_stage :: "nat \<Rightarrow> QueueType \<Rightarrow> QueueType list \<Rightarrow> failure + QueueType list" where
  "insert_stage pos q ql =
     (if pos \<le> length ql then Inr (take pos ql @ q # drop pos ql) else Inl UndefinedBehaviour)"

text \<open>The block under \<^verbatim>\<open>// add queue\<close>: it rewrites the caller's stage list in place.\<close>

definition EnqueueTensor_add_queue ::
  "Knobs \<Rightarrow> BPSContext \<Rightarrow> QueueType list \<Rightarrow> failure + QueueType list" where
  "EnqueueTensor_add_queue k context ql =
     (if is_root_device k \<and> compressor_list context \<noteq> [] then
        and_then (insert_stage (find_stage PUSH ql) COMPRESS ql) (\<lambda>ql1.
          insert_stage (find_stage PULL ql1 + 1) DECOMPRESS ql1)
      else Inr ql)"

text \<open>
  The loop over the partitions: assign the key, choose the fast path, add the task.
  (The profiling timestamp and the telemetry counter written between the two loops are
  not modelled.)
\<close>

primrec EnqueueTensor_tasks ::
  "Knobs \<Rightarrow> (TensorTableEntry \<times> 64 word) list \<Rightarrow> nat \<Rightarrow> BytePSGlobal
     \<Rightarrow> failure + (nat \<times> BytePSGlobal)" where
  "EnqueueTensor_tasks k [] accumulated g = Inr (accumulated, g)"
| "EnqueueTensor_tasks k (pk # rest) accumulated g =
     (let task0 = (fst pk)\<lparr>key := Some (snd pk)\<rparr>;
          task1 = (if device task0 \<noteq> CPU_DEVICE_ID \<and> GetPhyNodeNum k > 1 \<and> is_gdr k
                      \<and> is_gdr_gpu2gpu k \<and> len task0 \<le> gdr_phase1_threshold k
                      \<and> \<not> is_using_reduce k
                   then task0\<lparr>queue_list := [GDR_V2_PUSH_PULL]\<rparr> else task0) in
      if tensor_name_e task1 = [] then Inl CheckFailed
      else
        (case queue_list task1 of
           [] \<Rightarrow> Inl UndefinedBehaviour
         | q # qs \<Rightarrow>
             EnqueueTensor_tasks k rest ((accumulated + len task1) mod 2 ^ 64)
               (addTask q (Task task1) g)))"

definition EnqueueTensor ::
  "Knobs \<Rightarrow> BPSContext \<Rightarrow> Tensor option \<Rightarrow> Tensor option \<Rightarrow> int \<Rightarrow> int \<Rightarrow> int \<Rightarrow> nat
     \<Rightarrow> QueueType list \<Rightarrow> BytePSGlobal
     \<Rightarrow> (failure + (Status \<times> QueueType list \<times> BPSContext \<times> BytePSGlobal)) option" where
  "EnqueueTensor k context input output dev prio ver cb ql g =
     (if should_shutdown g then Some (Inr (Status_OK, ql, context, g))
      else if input \<noteq> None \<and> output \<noteq> None \<and> op_type context = PUSH_PULL_OP
              \<and> tensor_size (the input) \<noteq> tensor_size (the output)
        then Some (Inl CheckFailed)
      else
        (case EnqueueTensor_add_queue k context ql of
           Inl f \<Rightarrow> Some (Inl f)
         | Inr ql' \<Rightarrow>
            (let context' = (if dev = CPU_DEVICE_ID \<and> op_type context = PUSH_PULL_OP
                             then context\<lparr>gpu_ptr := nullptr\<rparr> else context);
                 e = \<lparr>tensor_name_e = tensor_name context', key = None, priority = prio,
                      version = ver, device = dev, callback = cb, cpubuff_e = cpubuff context',
                      gpu_ptr_e = gpu_ptr context', pcie_cpubuff_e = pcie_cpubuff context',
                      numa_cpubuff_e = numa_cpubuff context', queue_list = ql', offset = 0,
                      len = 0, counter_ptr = Some 0, push_pull_counter_ptr = None,
                      total_partnum = length (key_list context') mod 2 ^ 32,
                      compressor = None\<rparr> in
             case PartitionTensor k context' input output e of
               None \<Rightarrow> None
             | Some (Inl f) \<Rightarrow> Some (Inl f)
             | Some (Inr partitions) \<Rightarrow>
                 if length (key_list context') \<noteq> length partitions then Some (Inl CheckFailed)
                 else if queue_list e = [] then
                   (if tensor_name_e e = [] then Some (Inl CheckFailed)
                    else Some (Inr (Status_OK, ql', context', invoke_callback cb Status_OK g)))
                 else
                   (case EnqueueTensor_tasks k (zip partitions (key_list context')) 0 g of
                      Inl f \<Rightarrow> Some (Inl f)
                    | Inr (accumulated, g') \<Rightarrow>
                        (case key_list context' of
                           [] \<Rightarrow> Some (Inl UndefinedBehaviour)
                         | ky # kys \<Rightarrow>
                            (case entry_size input output of
                               Inl f \<Rightarrow> Some (Inl f)
                             | Inr sz \<Rightarrow>
                                 if accumulated \<noteq> sz mod 2 ^ 64 then Some (Inl CheckFailed)
                                 else Some (Inr (Status_OK, ql', context',
                                                 RecordCallback ky cb g'))))))))"

section \<open>\<^verbatim>\<open>EnqueueAlltoAllTensor\<close> (\<^verbatim>\<open>operations.cc\<close>)\<close>

definition GetAlltoallRequestQueueList :: "bool \<Rightarrow> QueueType list" where
  "GetAlltoallRequestQueueList use_pull = [if use_pull then P2P_PULL else SEND]"

definition GetAlltoallResponseQueueList :: "Knobs \<Rightarrow> bool \<Rightarrow> bool \<Rightarrow> QueueType list" where
  "GetAlltoallResponseQueueList k use_pull output_size_unknown =
     (if use_pull then
        (if p2p_ack_disabled k then [P2P_PULL_RESPONSE] else [P2P_PULL_RESPONSE, P2P_WAIT_ACK])
      else
        (if output_size_unknown then [P2P_GROUP_COPYH2D] else [RECV]))"

text \<open>
  The first loop over the ranks.  Its state is \<^verbatim>\<open>num_ps_requests\<close>,
  \<^verbatim>\<open>resp_total_partnum\<close>, the two size lists and the offsets appended to the two offset
  lists.  \<^verbatim>\<open>unit_size\<close> is the byte length of the element type.
\<close>

primrec EnqueueAlltoAll_sizes ::
  "nat list \<Rightarrow> int \<Rightarrow> int \<Rightarrow> bool \<Rightarrow> int list \<Rightarrow> int list
     \<Rightarrow> int \<times> int \<times> int list \<times> int list \<times> int list \<times> int list
     \<Rightarrow> failure + (int \<times> int \<times> int list \<times> int list \<times> int list \<times> int list)" where
  "EnqueueAlltoAll_sizes [] unit_size my_rank output_size_unknown request_begin resp_begin st =
     Inr st"
| "EnqueueAlltoAll_sizes (i # rest) unit_size my_rank output_size_unknown request_begin resp_begin st =
     (case st of (num_ps_requests, resp_total_partnum, request_size_list, resp_size_list,
                  request_offsets, resp_offsets) \<Rightarrow>
        if \<not> i + 1 < length request_begin then Inl UndefinedBehaviour
        else
          and_then (int32 (request_begin ! (i + 1) - request_begin ! i)) (\<lambda>request_diff.
          and_then (int32 (unit_size * request_diff)) (\<lambda>request_size.
          and_then (int32 (request_begin ! (i + 1) * unit_size)) (\<lambda>request_offset.
          and_then (if output_size_unknown \<and> int i \<noteq> my_rank then int32 (num_ps_requests + 1)
                    else if int i \<noteq> my_rank \<and> request_size \<noteq> 0 then int32 (num_ps_requests + 1)
                    else Inr num_ps_requests) (\<lambda>num_ps_requests'.
          if \<not> i + 1 < length resp_begin then Inl UndefinedBehaviour
          else
            and_then (int32 (resp_begin ! (i + 1) - resp_begin ! i)) (\<lambda>resp_diff.
            and_then (int32 (unit_size * resp_diff)) (\<lambda>resp_size.
            and_then (int32 (resp_begin ! (i + 1) * unit_size)) (\<lambda>resp_offset.
            and_then (if \<not> output_size_unknown \<and> resp_size \<noteq> 0
                      then int32 (resp_total_partnum + 1) else Inr resp_total_partnum)
              (\<lambda>resp_total_partnum'.
                EnqueueAlltoAll_sizes rest unit_size my_rank output_size_unknown request_begin
                  resp_begin
                  (num_ps_requests', resp_total_partnum', request_size_list @ [request_size],
                   resp_size_list @ [resp_size], request_offsets @ [request_offset],
                   resp_offsets @ [resp_offset]))))))))))"

text \<open>\<^verbatim>\<open>GenerateAlltoallKeys\<close>: the request key repeated, then one response key per rank.\<close>

definition GenerateAlltoallKeys :: "Knobs \<Rightarrow> int \<Rightarrow> nat \<Rightarrow> 64 word list" where
  "GenerateAlltoallKeys k d num_ranks =
     replicate num_ranks (ComposeAlltoallKey k d (rank k))
       @ map (\<lambda>i. ComposeAlltoallKey k d (int i)) [0..<num_ranks]"

text \<open>The size checks of \<^verbatim>\<open>InitTensorAlltoall\<close> against \<^verbatim>\<open>context.bounds_for_ranks\<close>.\<close>

primrec InitTensorAlltoall_checks :: "nat list \<Rightarrow> int list \<Rightarrow> int list \<Rightarrow> nat list \<Rightarrow> failure + unit" where
  "InitTensorAlltoall_checks [] request_size_list resp_size_list bounds = Inr ()"
| "InitTensorAlltoall_checks (i # rest) request_size_list resp_size_list bounds =
     (if \<not> i < length resp_size_list \<or> \<not> i < length bounds then Inl UndefinedBehaviour
      else if \<not> request_size_list ! i \<le> to_int32 (int (bounds ! i)) then Inl CheckFailed
      else if \<not> resp_size_list ! i \<le> to_int32 (int (bounds ! i)) then Inl CheckFailed
      else InitTensorAlltoall_checks rest request_size_list resp_size_list bounds)"

text \<open>
  The send buffers of \<^verbatim>\<open>InitTensorAlltoall\<close> in push mode: encode the key for the
  receiving rank, allocate, push to every rank but oneself.
\<close>

primrec InitTensorAlltoall_send_buffs ::
  "nat list \<Rightarrow> Knobs \<Rightarrow> 64 word list \<Rightarrow> nat list \<Rightarrow> buff list \<Rightarrow> BytePSGlobal
     \<Rightarrow> failure + (buff list \<times> BytePSGlobal)" where
  "InitTensorAlltoall_send_buffs [] k kl bounds bufs g = Inr (bufs, g)"
| "InitTensorAlltoall_send_buffs (i # rest) k kl bounds bufs g =
     (if \<not> i < length kl \<or> \<not> i < length bounds then Inl UndefinedBehaviour
      else
        (case EncodeP2PKey k (kl ! i) (bounds ! i) (int i) of
           Inl f \<Rightarrow> Inl f
         | Inr pskv \<Rightarrow>
             InitTensorAlltoall_send_buffs rest k kl bounds
               (bufs @ [if skip_input_copy k then nullptr else staging (bounds ! i)])
               (if rank k \<noteq> int i then g\<lparr>zpush_log := zpush_log g @ keys pskv\<rparr> else g)))"

definition InitTensorAlltoall ::
  "Knobs \<Rightarrow> BPSContext \<Rightarrow> int list \<Rightarrow> int list \<Rightarrow> bool \<Rightarrow> bool \<Rightarrow> bool \<Rightarrow> BytePSGlobal
     \<Rightarrow> failure + (BPSContext \<times> BytePSGlobal)" where
  "InitTensorAlltoall k context request_size_list resp_size_list recv_on_gpu output_size_unknown
     use_pull g =
     (let bound = unat (alltoall_buff_bound k);
          num_ranks = length request_size_list in
      if \<not> initialized context \<and> length resp_size_list < num_ranks then Inl UndefinedBehaviour
      else
        (let local_bounds =
               (if \<not> initialized context then
                  map (\<lambda>i. max (unat (alltoall_buff_scaled k
                                         (word_of_int (max (request_size_list ! i)
                                                           (resp_size_list ! i)))))
                                bound) [0..<num_ranks]
                else replicate num_ranks bound);
             context1 = (if \<not> initialized context
                         then context\<lparr>bounds_for_ranks := local_bounds\<rparr> else context) in
         case InitTensorAlltoall_checks [0..<num_ranks] request_size_list resp_size_list
                (bounds_for_ranks context1) of
           Inl f \<Rightarrow> Inl f
         | Inr u \<Rightarrow>
             if initialized context1 then Inr (context1, g)
             else
               (let kl = key_list context1
                           @ GenerateAlltoallKeys k (declared_key context1) num_ranks in
                if num_ranks * 2 \<noteq> length kl then Inl CheckFailed
                else if \<not> is_distributed k then Inl CheckFailed
                else
                  (case (if use_pull then Inr (replicate num_ranks nullptr, g)
                         else InitTensorAlltoall_send_buffs [0..<num_ranks] k kl local_bounds [] g) of
                     Inl f \<Rightarrow> Inl f
                   | Inr (bufs, g') \<Rightarrow>
                       Inr (context1\<lparr>key_list := kl, gpu_ptr := nullptr, cpubuff := nullptr,
                                     cpubuff_list := cpubuff_list context1 @ bufs
                                                       @ replicate num_ranks nullptr,
                                     initialized := True\<rparr>, g')))))"

text \<open>The second loop over the ranks: one response task for each non-empty slot.\<close>

primrec EnqueueAlltoAll_resp_tasks ::
  "nat list \<Rightarrow> Knobs \<Rightarrow> string \<Rightarrow> int \<Rightarrow> nat \<Rightarrow> bool \<Rightarrow> QueueType list \<Rightarrow> int list \<Rightarrow> int list
     \<Rightarrow> P2PTensorTableEntry \<Rightarrow> BytePSGlobal \<Rightarrow> failure + BytePSGlobal" where
  "EnqueueAlltoAll_resp_tasks [] k name unit_size group_inputs_size use_pull response_q
     request_begin resp_begin base_resp_task g = Inr g"
| "EnqueueAlltoAll_resp_tasks (i # rest) k name unit_size group_inputs_size use_pull response_q
     request_begin resp_begin base_resp_task g =
     (if \<not> i + 1 < length resp_begin then Inl UndefinedBehaviour
      else
        and_then (int32 (resp_begin ! (i + 1) - resp_begin ! i)) (\<lambda>resp_diff.
        and_then (int32 (unit_size * resp_diff)) (\<lambda>resp_size.
          if resp_size \<noteq> 0 then
            (if \<not> i < length (key_list_e base_resp_task) then Inl OutOfRange
             else if group_inputs_size = 0 \<and> \<not> i < length (offset_list base_resp_task)
               then Inl UndefinedBehaviour
             else
               (let resp_task = base_resp_task
                      \<lparr>tensor_name_e := name @ ''_request_'' @ to_string i @ ''_resp_''
                                           @ to_string_int (rank k),
                       key := Some (key_list_e base_resp_task ! i),
                       len := to_uint32 resp_size,
                       offset := (if group_inputs_size \<noteq> 0 then 0
                                  else to_uint32 (offset_list base_resp_task ! i))\<rparr> in
                case response_q of
                  [] \<Rightarrow> Inl OutOfRange
                | q # qs \<Rightarrow>
                    if int i = rank k then
                      (if \<not> i < length request_begin then Inl UndefinedBehaviour
                       else
                         and_then (int32 (request_begin ! i * unit_size)) (\<lambda>local_offset.
                           EnqueueAlltoAll_resp_tasks rest k name unit_size group_inputs_size
                             use_pull response_q request_begin resp_begin base_resp_task
                             (let g1 = addTask q
                                         (P2PTask (resp_task\<lparr>offset := to_uint32 local_offset\<rparr>)) g in
                              if use_pull
                              then g1\<lparr>p2p_pull_response_table :=
                                        (p2p_pull_response_table g1)
                                          (key_list_e base_resp_task ! i :=
                                             p2p_pull_response_table g1
                                               (key_list_e base_resp_task ! i) + 1)\<rparr>
                              else g1\<lparr>p2p_copy_table :=
                                        (p2p_copy_table g1)
                                          (key_list_e base_resp_task ! i :=
                                             p2p_copy_table g1 (key_list_e base_resp_task ! i) + 1)\<rparr>)))
                    else
                      EnqueueAlltoAll_resp_tasks rest k name unit_size group_inputs_size
                        use_pull response_q request_begin resp_begin base_resp_task
                        (addTask q (P2PTask resp_task) g)))
          else
            EnqueueAlltoAll_resp_tasks rest k name unit_size group_inputs_size use_pull
              response_q request_begin resp_begin base_resp_task g)))"

text \<open>
  The request task and the reference task for the responses, as they stand before
  anything is enqueued.  The first half of the context's key and buffer lists belongs to
  the request, the second half to the responses.
\<close>

definition EnqueueAlltoAll_request_task ::
  "int \<Rightarrow> int \<Rightarrow> int \<Rightarrow> int \<Rightarrow> nat \<Rightarrow> bool \<Rightarrow> QueueType list \<Rightarrow> int \<Rightarrow> int list \<Rightarrow> int \<Rightarrow> int
     \<Rightarrow> BPSContext \<Rightarrow> P2PTensorTableEntry" where
  "EnqueueAlltoAll_request_task input_device out_device prio ver cb output_size_unknown request_q
     num_ranks request_offsets num_ps_requests total_partnum' context' =
     \<lparr>tensor_name_e = ''base_request_task'', key = None, priority = prio, version = ver,
      device = input_device, callback = cb, cpubuff_e = nullptr, gpu_ptr_e = nullptr,
      pcie_cpubuff_e = take (nat num_ranks) (cpubuff_list context'), numa_cpubuff_e = [],
      queue_list = request_q, offset = 0, len = 0, counter_ptr = Some 0,
      push_pull_counter_ptr = None, total_partnum = to_uint32 total_partnum',
      compressor = None, aux_output = False, offset_list = 0 # request_offsets,
      key_list_e = take (nat num_ranks) (key_list context'), shape_list = [],
      request_counter = Some num_ps_requests, allgather_pull_local_root_counter = None,
      output_device = out_device, output_size_unknown_e = output_size_unknown\<rparr>"

definition EnqueueAlltoAll_base_resp_task ::
  "int \<Rightarrow> int \<Rightarrow> int \<Rightarrow> int \<Rightarrow> nat \<Rightarrow> bool \<Rightarrow> QueueType list \<Rightarrow> int \<Rightarrow> int list \<Rightarrow> int
     \<Rightarrow> BPSContext \<Rightarrow> P2PTensorTableEntry" where
  "EnqueueAlltoAll_base_resp_task input_device out_device prio ver cb output_size_unknown
     response_q num_ranks resp_offsets total_partnum' context' =
     \<lparr>tensor_name_e = ''base_response_task'', key = None, priority = prio, version = ver,
      device = input_device, callback = cb, cpubuff_e = nullptr, gpu_ptr_e = nullptr,
      pcie_cpubuff_e = drop (nat num_ranks) (cpubuff_list context'), numa_cpubuff_e = [],
      queue_list = response_q, offset = 0, len = 0, counter_ptr = Some 0,
      push_pull_counter_ptr = None, total_partnum = to_uint32 total_partnum',
      compressor = None, aux_output = False, offset_list = 0 # resp_offsets,
      key_list_e = drop (nat num_ranks) (key_list context'), shape_list = [],
      request_counter = None, allgather_pull_local_root_counter = None,
      output_device = out_device, output_size_unknown_e = output_size_unknown\<rparr>"

text \<open>
  The part of \<^verbatim>\<open>EnqueueAlltoAllTensor\<close> after the context is initialised: the checks
  on the list sizes, the request task, and then the callback or the response tasks.
\<close>

definition EnqueueAlltoAll_tasks ::
  "Knobs \<Rightarrow> string \<Rightarrow> int \<Rightarrow> nat \<Rightarrow> bool \<Rightarrow> nat \<Rightarrow> bool \<Rightarrow> bool \<Rightarrow> int \<Rightarrow> int list \<Rightarrow> int list
     \<Rightarrow> int \<Rightarrow> int \<Rightarrow> P2PTensorTableEntry \<Rightarrow> P2PTensorTableEntry \<Rightarrow> BPSContext \<Rightarrow> BytePSGlobal
     \<Rightarrow> failure + (Status \<times> BytePSGlobal)" where
  "EnqueueAlltoAll_tasks k name unit_size group_inputs_size size_output cb use_pull
     output_size_unknown num_ranks request_begin resp_begin request_total_partnum
     resp_total_partnum request_task base_resp_task context' g =
     (if int (length (cpubuff_list context')) \<noteq> (num_ranks * 2) mod 2 ^ 64 then Inl CheckFailed
      else if int (length (key_list context')) \<noteq> (num_ranks * 2) mod 2 ^ 64 then Inl CheckFailed
      else
        (let request_q = queue_list request_task;
             response_q = queue_list base_resp_task;
             g1 = (if request_total_partnum \<noteq> 0
                   then addTask (hd request_q)
                          (P2PTask (request_task\<lparr>offset := 0,
                                      tensor_name_e := name @ ''_request''\<rparr>)) g
                   else g) in
         if request_total_partnum + resp_total_partnum = 0
           then Inr (Status_OK, invoke_callback cb Status_OK g1)
         else if resp_total_partnum \<noteq> 0 then
           (case key_list context' of
              [] \<Rightarrow> Inl UndefinedBehaviour
            | ky # kys \<Rightarrow>
               (let g2 = RecordCallback ky cb g1;
                    base' = base_resp_task\<lparr>offset := 0, aux_output := size_output\<rparr> in
                if output_size_unknown then
                  (case key_list_e base' of
                     [] \<Rightarrow> Inl OutOfRange
                   | rk # rks \<Rightarrow>
                      (case response_q of
                         [] \<Rightarrow> Inl OutOfRange
                       | q # qs \<Rightarrow>
                           Inr (Status_OK,
                                addTask q
                                  (P2PTask (base'\<lparr>tensor_name_e := name @ ''_resp'',
                                              key := Some (GetAlltoallTensorId k rk)\<rparr>))
                                  g2)))
                else
                  (case EnqueueAlltoAll_resp_tasks [0..<nat (to_int32 num_ranks)] k name
                          unit_size group_inputs_size use_pull response_q request_begin
                          resp_begin base' g2 of
                     Inl f \<Rightarrow> Inl f
                   | Inr g3 \<Rightarrow> Inr (Status_OK, g3))))
         else Inr (Status_OK, g1)))"

text \<open>
  \<^verbatim>\<open>EnqueueAlltoAllTensor\<close>.  The tensors are represented by what the function reads of
  them: whether there is an input, the number of grouped inputs, \<open>unit_size\<close> (the byte
  length of the element type of the input, or of the first grouped input when there is no
  input), and whether a size output is given.  \<^verbatim>\<open>num_ranks\<close> is a \<^verbatim>\<open>size_t\<close> (an empty
  \<^verbatim>\<open>send_begin\<close> wraps it); the loops count with \<^verbatim>\<open>(int) num_ranks\<close>.  The context is a
  reference into the context table, so what \<^verbatim>\<open>InitTensorAlltoall\<close> writes is stored there.
  (The telemetry counter is not modelled.)
\<close>

definition EnqueueAlltoAllTensor ::
  "Knobs \<Rightarrow> string \<Rightarrow> bool \<Rightarrow> int \<Rightarrow> nat \<Rightarrow> bool \<Rightarrow> int \<Rightarrow> int \<Rightarrow> int \<Rightarrow> int \<Rightarrow> nat \<Rightarrow> int list
     \<Rightarrow> int list \<Rightarrow> bool \<Rightarrow> BytePSGlobal \<Rightarrow> failure + (Status \<times> BytePSGlobal)" where
  "EnqueueAlltoAllTensor k name has_input unit_size group_inputs_size size_output input_device
     out_device prio ver cb send_begin recv_begin output_size_unknown g =
     (if should_shutdown g then Inr (Status_OK, g)
      else if \<not> is_joint k then Inl CheckFailed
      else if \<not> has_input \<and> group_inputs_size = 0 then Inl UndefinedBehaviour
      else
        (let use_pull = (alltoall_use_pull k \<and> \<not> output_size_unknown);
             num_ranks = (int (length send_begin) - 1) mod 2 ^ 64 in
         case GetContextFromName name g of
           Inl f \<Rightarrow> Inl f
         | Inr byteps_context \<Rightarrow>
            (let recv_on_gpu = (out_device \<noteq> CPU_DEVICE_ID);
                 request_begin = (if use_pull then recv_begin else send_begin);
                 resp_begin = (if use_pull then send_begin else recv_begin);
                 request_q = GetAlltoallRequestQueueList use_pull;
                 response_q = GetAlltoallResponseQueueList k use_pull output_size_unknown in
             case EnqueueAlltoAll_sizes [0..<nat (to_int32 num_ranks)] unit_size (rank k)
                    output_size_unknown request_begin resp_begin
                    (0, if output_size_unknown then 1 else 0, [], [], [], []) of
               Inl f \<Rightarrow> Inl f
             | Inr (num_ps_requests, resp_total_partnum, request_size_list, resp_size_list,
                    request_offsets, resp_offsets) \<Rightarrow>
                (let request_total_partnum =
                       (if \<not> output_size_unknown \<and> num_ps_requests = 0 then 0 else (1::int)) in
                 and_then (int32 (request_total_partnum + resp_total_partnum)) (\<lambda>total_partnum'.
                 case InitTensorAlltoall k byteps_context request_size_list resp_size_list
                        recv_on_gpu output_size_unknown use_pull g of
                   Inl f \<Rightarrow> Inl f
                 | Inr (context', g1) \<Rightarrow>
                     EnqueueAlltoAll_tasks k name unit_size group_inputs_size size_output cb
                       use_pull output_size_unknown num_ranks request_begin resp_begin
                       request_total_partnum resp_total_partnum
                       (EnqueueAlltoAll_request_task input_device out_device prio ver cb
                          output_size_unknown request_q num_ranks request_offsets
                          num_ps_requests total_partnum' context')
                       (EnqueueAlltoAll_base_resp_task input_device out_device prio ver cb
                          output_size_unknown response_q num_ranks resp_offsets total_partnum'
                          context')
                       context'
                       (g1\<lparr>name_to_cxt := (name_to_cxt g1)(name \<mapsto> context')\<rparr>))))))"

section \<open>\<^verbatim>\<open>EnqueueAllgatherTensor\<close> (\<^verbatim>\<open>operations.cc\<close>)\<close>

definition GetAllgatherRequestQueueList :: "Knobs \<Rightarrow> QueueType list" where
  "GetAllgatherRequestQueueList k =
     (if building_cuda k then
        (if nccl_is_signal_root k then [ALLGATHER] else [COORDINATE_ALLGATHER, ALLGATHER])
        @ (if GetPhyNodeNum k > 1 then
             (if \<not> is_gdr_allgather k then [ALLGATHER_COPYD2H] else [])
             @ (if is_root_device k then [ALLGATHER_PULL_WORKER_LOCAL_ROOT, ALLGATHER_PULL] else [])
             @ (if \<not> is_gdr_allgather k then [ALLGATHER_COPYH2D] else [])
             @ (if nccl_is_signal_root k then [ALLGATHER_BCAST]
                else [COORDINATE_ALLGATHER_BCAST, ALLGATHER_BCAST])
           else [])
      else [])"

definition GetAllgatherResponseQueueList :: "Knobs \<Rightarrow> QueueType list" where
  "GetAllgatherResponseQueueList k =
     (if building_cuda k \<and> GetPhyNodeNum k > 1 then
        (if local_rank k = 0 then
           (if p2p_ack_disabled k then [ALLGATHER_PULL_WORKER_LOCAL_ROOT_RESP]
            else [ALLGATHER_PULL_WORKER_LOCAL_ROOT_RESP, ALLGATHER_PULL_WORKER_LOCAL_ROOT_ACK])
         else [])
        @ (if is_root_device k then
             (if p2p_ack_disabled k then [ALLGATHER_PULL_RESP]
              else [ALLGATHER_PULL_RESP, ALLGATHER_PULL_ACK])
           else [])
      else [])"

text \<open>\<^verbatim>\<open>remaining_dims\<close>: the product of the input's dimensions after the first.\<close>

primrec Allgather_remaining_dims :: "int list \<Rightarrow> int \<Rightarrow> failure + int" where
  "Allgather_remaining_dims [] remaining_dims = Inr remaining_dims"
| "Allgather_remaining_dims (d # ds) remaining_dims =
     (if d = 0 then Inl CheckFailed
      else and_then (int64 (remaining_dims * d)) (\<lambda>p. Allgather_remaining_dims ds (to_int32 p)))"

primrec Allgather_offsets :: "nat list \<Rightarrow> int list \<Rightarrow> int \<Rightarrow> int list \<Rightarrow> failure + int list" where
  "Allgather_offsets [] shapes remaining_dims offsets = Inr offsets"
| "Allgather_offsets (i # rest) shapes remaining_dims offsets =
     (if \<not> i - 1 < length shapes \<or> \<not> i < length offsets \<or> i = 0 then Inl UndefinedBehaviour
      else
        and_then (int32 (shapes ! (i - 1) * remaining_dims)) (\<lambda>p.
        and_then (int32 (offsets ! (i - 1) + p)) (\<lambda>off.
          Allgather_offsets rest shapes remaining_dims (offsets[i := off]))))"

definition Allgather_offset_list :: "Knobs \<Rightarrow> Tensor \<Rightarrow> int list \<Rightarrow> failure + int list" where
  "Allgather_offset_list k input shapes =
     (if shapes \<noteq> [] then
        and_then (Allgather_remaining_dims (tl (tensor_shape input)) 1) (\<lambda>remaining_dims.
          if world_size k + 1 < 0 then Inl UndefinedBehaviour
          else Allgather_offsets [1..<nat (world_size k) + 1] shapes remaining_dims
                 (replicate (nat (world_size k + 1)) 0))
      else Inr [])"

primrec Allgather_resp_tasks ::
  "nat list \<Rightarrow> Knobs \<Rightarrow> BPSContext \<Rightarrow> P2PTensorTableEntry \<Rightarrow> BytePSGlobal \<Rightarrow> failure + BytePSGlobal" where
  "Allgather_resp_tasks [] k context resp_task g = Inr g"
| "Allgather_resp_tasks (i # rest) k context resp_task g =
     (if int i = phy_node_id k then Allgather_resp_tasks rest k context resp_task g
      else if \<not> i < length (key_list context) then Inl OutOfRange
      else
        (case queue_list resp_task of
           [] \<Rightarrow> Inl UndefinedBehaviour
         | q # qs \<Rightarrow>
             Allgather_resp_tasks rest k context resp_task
               (addTask q (P2PTask (resp_task\<lparr>key := Some (key_list context ! i)\<rparr>)) g)))"

definition EnqueueAllgatherTensor ::
  "Knobs \<Rightarrow> BPSContext \<Rightarrow> Tensor option \<Rightarrow> int \<Rightarrow> int \<Rightarrow> int \<Rightarrow> int list \<Rightarrow> nat \<Rightarrow> BytePSGlobal
     \<Rightarrow> failure + (Status \<times> BytePSGlobal)" where
  "EnqueueAllgatherTensor k context input dev prio ver shapes cb g =
     (if should_shutdown g then Inr (Status_OK, g)
      else if \<not> is_joint k then Inl CheckFailed
      else
        (let req_q = GetAllgatherRequestQueueList k;
             resp_q = GetAllgatherResponseQueueList k;
             num_phy = GetPhyNodeNum k;
             phy_id = phy_node_id k in
         case input of
           None \<Rightarrow> Inl CheckFailed
         | Some inp \<Rightarrow>
             if to_int32 (int (length (key_list context))) \<noteq> num_phy then Inl CheckFailed
             else
               (let total_partnum' =
                      (if is_distributed k \<and> (local_rank k = 0 \<or> is_root_device k)
                       then num_phy else 1) in
                case Allgather_offset_list k inp shapes of
                  Inl f \<Rightarrow> Inl f
                | Inr offsets \<Rightarrow>
                    if phy_id < 0 \<or> \<not> nat phy_id < length (key_list context)
                      then Inl UndefinedBehaviour
                    else
                      (let resp_task =
                             \<lparr>tensor_name_e = tensor_name context, key = None, priority = prio,
                              version = ver, device = dev, callback = cb,
                              cpubuff_e = cpubuff context, gpu_ptr_e = nullptr,
                              pcie_cpubuff_e = [], numa_cpubuff_e = [],
                              queue_list = resp_q, offset = 0,
                              len = to_uint32 (int (tensor_size inp)),
                              counter_ptr = Some 0, push_pull_counter_ptr = None,
                              total_partnum = to_uint32 total_partnum', compressor = None,
                              aux_output = False,
                              offset_list = offsets, key_list_e = [], shape_list = shapes,
                              request_counter = None,
                              allgather_pull_local_root_counter = None,
                              output_device = CPU_DEVICE_ID, output_size_unknown_e = False\<rparr>;
                           req_task = resp_task
                             \<lparr>queue_list := req_q,
                              request_counter := Some (num_phy - 1),
                              allgather_pull_local_root_counter := Some (num_phy - 1),
                              key := Some (key_list context ! nat phy_id)\<rparr> in
                       if total_partnum' = 0 then Inr (Status_OK, invoke_callback cb Status_OK g)
                       else
                         (let g1 = (case req_q of [] \<Rightarrow> g
                                    | q # qs \<Rightarrow> addTask q (P2PTask req_task) g) in
                          if resp_q \<noteq> [] then
                            (case Allgather_resp_tasks [0..<nat num_phy] k context resp_task g1 of
                               Inl f \<Rightarrow> Inl f
                             | Inr g2 \<Rightarrow> Inr (Status_OK, g2))
                          else Inr (Status_OK, g1))))))"

section \<open>\<^verbatim>\<open>PrepareAlltoallTensor\<close> (\<^verbatim>\<open>operations.cc\<close>)\<close>

text \<open>What the function writes through its output pointers.\<close>

record PrepareOutputs =
  split_indices_list :: "int list"
  recv_split_indices_list :: "int list"
  dim0_in :: int
  dim0_out :: int
  session_name :: string
  initialized_out :: bool

text \<open>\<^verbatim>\<open>stride\<close>: the product of \<^verbatim>\<open>shape[1:]\<close>, in \<^verbatim>\<open>int64_t\<close>.\<close>

primrec Prepare_stride :: "int list \<Rightarrow> int \<Rightarrow> failure + int" where
  "Prepare_stride [] stride = Inr stride"
| "Prepare_stride (d # ds) stride = and_then (int64 (stride * d)) (Prepare_stride ds)"

text \<open>
  The loop over \<^verbatim>\<open>split_list\<close>: accumulate, record the scaled index, and only then
  reject a negative entry.  The result carries the status of an early return.
\<close>

primrec Prepare_split_loop ::
  "int list \<Rightarrow> nat \<Rightarrow> string \<Rightarrow> int \<Rightarrow> PrepareOutputs \<Rightarrow> failure + (Status option \<times> PrepareOutputs)" where
  "Prepare_split_loop [] i name stride out = Inr (None, out)"
| "Prepare_split_loop (split_i # rest) i name stride out =
     and_then (int32 (dim0_in out + split_i)) (\<lambda>d.
     and_then (int64 (split_i * stride)) (\<lambda>scaled.
       (let out' = out\<lparr>dim0_in := d,
                       split_indices_list := split_indices_list out @ [to_int32 scaled]\<rparr> in
        if split_i < 0 then
          Inr (Some (InvalidArgument (name @ '': invalid split['' @ to_string i @ '']=''
                                        @ to_string_int split_i)), out')
        else Prepare_split_loop rest (i + 1) name stride out')))"

text \<open>The loop over \<^verbatim>\<open>recv_split_list\<close>: reject a negative entry before anything else.\<close>

primrec Prepare_recv_split_loop ::
  "int list \<Rightarrow> nat \<Rightarrow> string \<Rightarrow> int \<Rightarrow> PrepareOutputs \<Rightarrow> failure + (Status option \<times> PrepareOutputs)" where
  "Prepare_recv_split_loop [] i name stride out = Inr (None, out)"
| "Prepare_recv_split_loop (recv_split_i # rest) i name stride out =
     (if recv_split_i < 0 then
        Inr (Some (InvalidArgument (name @ '': invalid recv_split['' @ to_string i @ '']=''
                                      @ to_string_int recv_split_i)), out)
      else
        and_then (int32 (dim0_out out + recv_split_i)) (\<lambda>d.
        and_then (int64 (recv_split_i * stride)) (\<lambda>scaled.
          Prepare_recv_split_loop rest (i + 1) name stride
            (out\<lparr>dim0_out := d,
                 recv_split_indices_list := recv_split_indices_list out @ [to_int32 scaled]\<rparr>))))"

text \<open>The declarations: \<^verbatim>\<open>DeclareAlltoallTensor(name, tensor_key[i], i)\<close> for every \<open>i\<close>.\<close>

definition DeclareAlltoallTensor ::
  "string \<Rightarrow> int \<Rightarrow> int \<Rightarrow> BytePSGlobal \<Rightarrow> failure + (int \<times> BytePSGlobal)" where
  "DeclareAlltoallTensor name provided_key session g =
     DeclareTensor name ALLTOALL_OP provided_key session g"

primrec Prepare_declare_loop :: "int list \<Rightarrow> nat \<Rightarrow> string \<Rightarrow> BytePSGlobal \<Rightarrow> failure + BytePSGlobal" where
  "Prepare_declare_loop [] i name g = Inr g"
| "Prepare_declare_loop (tk # rest) i name g =
     (case DeclareAlltoallTensor name tk (to_int32 (int i)) g of
        Inl f \<Rightarrow> Inl f
      | Inr r \<Rightarrow> Prepare_declare_loop rest (i + 1) name (snd r))"

definition PrepareAlltoallTensor ::
  "Knobs \<Rightarrow> int list \<Rightarrow> int list \<Rightarrow> int list \<Rightarrow> int list \<Rightarrow> string \<Rightarrow> PrepareOutputs
     \<Rightarrow> BytePSGlobal \<Rightarrow> failure + (Status \<times> PrepareOutputs \<times> BytePSGlobal)" where
  "PrepareAlltoallTensor k shape tensor_key split_list recv_split_list name out g =
     and_then (Prepare_stride (tl shape) 1) (\<lambda>stride.
     and_then (Prepare_split_loop split_list 0 name stride out) (\<lambda>r1.
       case fst r1 of
         Some st \<Rightarrow> Inr (st, snd r1, g)
       | None \<Rightarrow>
           (case shape of
              [] \<Rightarrow> Inl UndefinedBehaviour
            | expected_dim0 # dims \<Rightarrow>
                if dim0_in (snd r1) \<noteq> expected_dim0 then
                  Inr (InvalidArgument
                         (name @ '': invalid split. tensor.shape[0]='' @ to_string_int expected_dim0
                            @ ''. split='' @ concat (map (\<lambda>x. to_string_int x @ '','') split_list)),
                       snd r1, g)
                else
                  and_then (Prepare_recv_split_loop recv_split_list 0 name stride (snd r1)) (\<lambda>r2.
                    case fst r2 of
                      Some st \<Rightarrow> Inr (st, snd r2, g)
                    | None \<Rightarrow>
                        (let ssize = to_int32 (uint (session_size k)) in
                         if (word_of_int ssize :: 64 word) = 0 then Inl UndefinedBehaviour
                         else
                           (let session_id = GetSessionId k (c_str name) mod word_of_int ssize;
                                sname = ''session_'' @ to_string (unat session_id) @ ''_'' @ name in
                            case Prepare_declare_loop tensor_key 0 name g of
                              Inl f \<Rightarrow> Inl f
                            | Inr g' \<Rightarrow>
                                (case GetContextFromName sname g' of
                                   Inl f \<Rightarrow> Inl f
                                 | Inr bps_context \<Rightarrow>
                                     Inr (Status_OK,
                                          (snd r2)\<lparr>session_name := sname,
                                                   initialized_out := initialized bps_context\<rparr>,
                                          g'))))))))"

section \<open>Auxiliary notions for the statements\<close>

text \<open>The number of partitions of \<open>n\<close> bytes under the bound \<open>b\<close>, rounded up.\<close>

definition ceil_div :: "nat \<Rightarrow> nat \<Rightarrow> nat" where
  "ceil_div n b = (n + b - 1) div b"

text \<open>The declared key a name has in the state a call returned, if any.\<close>

definition declared_key_of :: "string \<Rightarrow> failure + BytePSGlobal \<Rightarrow> int option" where
  "declared_key_of name r =
     (case r of Inl f \<Rightarrow> None | Inr g \<Rightarrow> map_option declared_key (name_to_cxt g name))"

section \<open>A concrete configuration\<close>

text \<open>
  Two workers and one server, one GPU each, the default partition bound of 4,096,000
  bytes, and a gradient of 5,000,000 bytes declared under key 0.
\<close>

definition demo_knobs :: Knobs where
  "demo_knobs =
     \<lparr>partition_bytes = 4096000, skip_input_copy = False, num_phy_node = 2, phy_node_id = 0,
      rank = 0, local_rank = 0, local_size = 1, world_size = 2, num_server = 1,
      is_root_device = True, is_joint = True, is_distributed = True, is_gdr = False,
      is_gdr_gpu2gpu = False, gdr_phase1_threshold = 102400, is_using_reduce = False,
      alltoall_use_pull = False, p2p_ack_disabled = False, is_gdr_allgather = True,
      cpu_allreduce_disabled = False, gpu_allreduce_disabled = False,
      cross_pcie_switch = False, pcie_switch_num = 1, min_compress_bound = 65536,
      nccl_is_signal_root = True, building_cuda = True, building_compressor = True,
      alltoall_buff_bound = 4096000, alltoall_buff_scaled = (\<lambda>x. x), session_size = 2,
      GetSessionId = (\<lambda>name. 0),
      ComposeAlltoallKey = (\<lambda>d r. push_bit 16 (word_of_int d) + word_of_int r),
      GetAlltoallTensorId = (\<lambda>ky. drop_bit 16 ky),
      Serialize = (\<lambda>kw. concat (map (\<lambda>p. fst p @ ''='' @ snd p @ '';'') kw)),
      hash_knob = ''djb2'', server_local_root = 0, mixed_mode = False,
      string_hash = (\<lambda>reads ky. ky + of_nat reads), Hash_Mixed_Mode = (\<lambda>reads ky. Inr 0),
      krs = [(0, 0x8000000000000000)]\<rparr>"

definition demo_context :: BPSContext where
  "demo_context = new_context ''grad'' ''grad'' 0 PUSH_PULL_OP"

definition demo_tensor :: Tensor where
  "demo_tensor = \<lparr>tensor_size = 5000000, tensor_has_data = True, tensor_shape = [1250000], tensor_dtype = 0\<rparr>"

definition demo_entry :: TensorTableEntry where
  "demo_entry =
     \<lparr>tensor_name_e = ''grad'', key = None, priority = 0, version = 0, device = 0, callback = 7,
      cpubuff_e = nullptr, gpu_ptr_e = nullptr, pcie_cpubuff_e = [], numa_cpubuff_e = [],
      queue_list = [REDUCE, COPYD2H, PUSH, PULL, COPYH2D, BROADCAST],
      offset = 0, len = 0, counter_ptr = Some 0, push_pull_counter_ptr = None,
      total_partnum = 2, compressor = None\<rparr>"

definition demo_global :: BytePSGlobal where
  "demo_global =
     \<lparr>global_initialized = True, should_shutdown = False, name_to_cxt = Map.empty,
      declared_tensors = [], next_keys = (\<lambda>op. 0), used_keys = (\<lambda>op. {}),
      p2p_next_keys = (\<lambda>pair. 0), ps_kv = Map.empty, server_accumulated_len = [0],
      total_accumulated_len = 0, hash_reads = 0, queues = (\<lambda>q. []), invoked = [],
      error_callbacks = [], zpush_log = [], p2p_copy_table = (\<lambda>ky. 0),
      p2p_pull_response_table = (\<lambda>ky. 0)\<rparr>"

text \<open>The same gradient with compressor arguments set, initialised in two partitions.\<close>

definition demo_compress_context :: BPSContext where
  "demo_compress_context =
     demo_context\<lparr>key_list := [1024, 1025], initialized := True, compressor_list := [0, 1],
                   kwargs := [(''compressor_type'', ''onebit'')]\<rparr>"

definition demo_enqueued :: BytePSGlobal where
  "demo_enqueued =
     demo_global
       \<lparr>queues := (\<lambda>q. [])
          (REDUCE :=
             [Task \<lparr>tensor_name_e = ''grad_0'', key = Some 1024, priority = 0, version = 0,
                     device = 0, callback = 7, cpubuff_e = nullptr, gpu_ptr_e = nullptr,
                     pcie_cpubuff_e = [], numa_cpubuff_e = [],
                     queue_list = [REDUCE, COPYD2H, COMPRESS, PUSH, PULL, DECOMPRESS, COPYH2D,
                                   BROADCAST],
                     offset = 0, len = 4096000, counter_ptr = Some 0,
                     push_pull_counter_ptr = Some 1, total_partnum = 2,
                     compressor = Some 0\<rparr>,
              Task \<lparr>tensor_name_e = ''grad_1'', key = Some 1025, priority = 0, version = 0,
                     device = 0, callback = 7, cpubuff_e = nullptr, gpu_ptr_e = nullptr,
                     pcie_cpubuff_e = [], numa_cpubuff_e = [],
                     queue_list = [REDUCE, COPYD2H, COMPRESS, PUSH, PULL, DECOMPRESS, COPYH2D,
                                   BROADCAST],
                     offset = 4096000, len = 904000, counter_ptr = Some 0,
                     push_pull_counter_ptr = Some 1, total_partnum = 2,
                     compressor = Some 1\<rparr>]),
        error_callbacks := [(1024, 7)]\<rparr>"

text \<open>The state after the gradient, and then a second tensor, have been declared.\<close>

definition demo_declared :: BytePSGlobal where
  "demo_declared =
     demo_global\<lparr>declared_tensors := [''grad''],
                 name_to_cxt := [''grad'' \<mapsto> demo_context],
                 next_keys := (\<lambda>op. 0)(PUSH_PULL_OP := 1),
                 used_keys := (\<lambda>op. {})(PUSH_PULL_OP := {0})\<rparr>"


text \<open>
  The table of assignments is well formed when every entry that holds a key holds a
  length too (\<^verbatim>\<open>EncodeDefaultKey\<close> pushes both or neither).
\<close>

definition memo_ok :: "BytePSGlobal \<Rightarrow> bool" where
  "memo_ok g = (\<forall>ky p. ps_kv g ky = Some p \<longrightarrow> keys p \<noteq> [] \<longrightarrow> lens p \<noteq> [])"

text \<open>
  Two servers and the arithmetic hash; the state after key 1025 has been assigned there;
  the same job resumed with a single server.
\<close>

definition demo_knobs_two :: Knobs where
  "demo_knobs_two =
     demo_knobs\<lparr>hash_knob := ''naive'', num_server := 2,
                krs := [(0, 0x8000000000000000), (0x8000000000000000, 0xFFFFFFFFFFFFFFFF)]\<rparr>"

definition demo_knobs_one :: Knobs where
  "demo_knobs_one = demo_knobs\<lparr>hash_knob := ''naive''\<rparr>"

definition demo_global_two :: BytePSGlobal where
  "demo_global_two = demo_global\<lparr>server_accumulated_len := [0, 0]\<rparr>"

definition demo_encoded :: BytePSGlobal where
  "demo_encoded =
     demo_global\<lparr>ps_kv := [1025 \<mapsto> \<lparr>keys = [0x8000000000000401], lens = [100], pskv_size = 100\<rparr>],
                 server_accumulated_len := [0, 100], total_accumulated_len := 100,
                 hash_reads := 1\<rparr>"

definition demo_encoded_more :: BytePSGlobal where
  "demo_encoded_more =
     demo_global\<lparr>ps_kv := [1025 \<mapsto> \<lparr>keys = [0x8000000000000401], lens = [100], pskv_size = 100\<rparr>,
                           1024 \<mapsto> \<lparr>keys = [1024], lens = [50], pskv_size = 50\<rparr>],
                 server_accumulated_len := [50, 100], total_accumulated_len := 150,
                 hash_reads := 2\<rparr>"

text \<open>The key list of the context an initialisation returned.\<close>

definition key_list_of :: "(failure + BPSContext \<times> BytePSGlobal) option \<Rightarrow> 64 word list" where
  "key_list_of r = (case r of Some (Inr cg) \<Rightarrow> key_list (fst cg) | _ \<Rightarrow> [])"

text \<open>
  A single machine with a partition bound of 4096 bytes; and a tensor sent from rank 1 to
  rank 0, declared under key 0 for that pair.
\<close>

definition demo_knobs_local :: Knobs where
  "demo_knobs_local =
     demo_knobs\<lparr>partition_bytes := 4096, is_distributed := False, num_phy_node := 1,
                world_size := 1\<rparr>"

definition demo_p2p_context :: BPSContext where
  "demo_p2p_context = (new_context ''recv'' ''recv'' 0 P2P_OP)\<lparr>sender := 1, receiver := 0\<rparr>"

text \<open>
  The gradient initialised under the default configuration, and the state this leaves:
  both partitions are assigned to the server and pushed.
\<close>

definition demo_initialised_context :: BPSContext where
  "demo_initialised_context =
     demo_context\<lparr>key_list := [1024, 1025], cpubuff := staging 5000064, initialized := True\<rparr>"

definition demo_initialised :: BytePSGlobal where
  "demo_initialised =
     demo_global\<lparr>ps_kv := [1024 \<mapsto> \<lparr>keys = [1024], lens = [4096000], pskv_size = 4096000\<rparr>,
                           1025 \<mapsto> \<lparr>keys = [1025], lens = [904000], pskv_size = 904000\<rparr>],
                 server_accumulated_len := [5000000], total_accumulated_len := 5000000,
                 hash_reads := 2, zpush_log := [1024, 1025]\<rparr>"

definition demo_p2p_initialised_context :: BPSContext where
  "demo_p2p_initialised_context =
     demo_p2p_context\<lparr>key_list := [4294969344, 4294969345], cpubuff_list := [nullptr, nullptr],
                      initialized := True\<rparr>"

section \<open>Partitioning\<close>

lemma ceil_div_step: "0 < b \<Longrightarrow> b < d \<Longrightarrow> ceil_div d b = Suc (ceil_div (d - b) b)"
proof -
  assume b: "0 < b" and d: "b < d"
  have "d + b - 1 = (d - b + b - 1) + b" using b d by arith
  then have "(d + b - 1) div b = ((d - b + b - 1) + b) div b" by (simp only:)
  also have "\<dots> = (d - b + b - 1) div b + 1" using b by (simp only: div_add_self2 neq0_conv)
  finally show ?thesis by (simp only: ceil_div_def Suc_eq_plus1)
qed

lemma ceil_div_small: "0 < d \<Longrightarrow> d \<le> b \<Longrightarrow> ceil_div d b = 1"
  unfolding ceil_div_def
  by (simp add: div_nat_eqI)

lemma ceil_div_0: "0 < b \<Longrightarrow> ceil_div 0 b = 0"
  unfolding ceil_div_def by simp

lemma ceil_div_bounds:
  assumes "0 < b" "0 < n"
  shows "(ceil_div n b - 1) * b < n" and "n \<le> ceil_div n b * b"
proof -
  define q where "q = (n + b - 1) div b"
  have e: "n + b - 1 = q * b + (n + b - 1) mod b" by (simp add: q_def)
  have m: "(n + b - 1) mod b < b" using assms by simp
  have qpos: "0 < q" using assms by (simp add: q_def div_greater_zero_iff)
  have "(q - 1) * b = q * b - b" by (simp add: diff_mult_distrib)
  moreover have "b \<le> q * b" using qpos by simp
  ultimately show "(ceil_div n b - 1) * b < n" using e m assms unfolding ceil_div_def q_def[symmetric] by linarith
  show "n \<le> ceil_div n b * b" using e m assms unfolding ceil_div_def q_def[symmetric] by linarith
qed


text \<open>
  The loop of \<^verbatim>\<open>PartitionTensor\<close> returns, and what it appends has the lengths
  \<open>bound, \<dots>, bound, rest\<close>.
\<close>

lemma PartitionTensor_loop_returns:
  assumes "0 < bound" "bound < 2 ^ 32" "op_type ctx = PUSH_PULL_OP"
  shows "acc \<le> sz \<Longrightarrow> compressor_list ctx = [] \<or> i + ceil_div (sz - acc) bound \<le> length (compressor_list ctx)
    \<Longrightarrow> i + ceil_div (sz - acc) bound < 2 ^ 31
    \<Longrightarrow> \<exists>ps. PartitionTensor_loop g ctx tensor entry sz bound acc i parts = Some (Inr (parts @ ps))
        \<and> length ps = ceil_div (sz - acc) bound
        \<and> (ps \<noteq> [] \<longrightarrow> map len ps = replicate (length ps - 1) bound @ [sz - acc - (length ps - 1) * bound])"
proof (induction "sz - acc" arbitrary: acc i parts rule: less_induct)
  case less
  show ?case
  proof (cases "acc < sz")
    case False
    then have "acc = sz" using less.prems by simp
    then show ?thesis using assms
      by (subst PartitionTensor_loop.simps) (simp add: ceil_div_0)
  next
    case True
    define l where "l = partition_len sz bound acc"
    have l: "l = (if sz - acc > bound then bound else sz - acc)"
      using assms by (simp add: l_def partition_len_def)
    have lpos: "0 < l" "acc + l \<le> sz" using True assms l by auto
    have cd: "ceil_div (sz - acc) bound = Suc (ceil_div (sz - (acc + l)) bound)"
    proof (cases "sz - acc > bound")
      case True
      then show ?thesis using assms l ceil_div_step[of bound "sz - acc"] by simp
    next
      case False
      then have "l = sz - acc" using l by simp
      then show ?thesis using False True assms ceil_div_small[of "sz - acc" bound]
        by (simp add: ceil_div_0)
    qed
    have ci: "partition_compressor ctx i = Inr (if compressor_list ctx = [] then None else Some (compressor_list ctx ! i))"
      using less.prems(2) cd by (auto simp: partition_compressor_def)
    obtain c where c: "partition_compressor ctx i = Inr c" using ci by blast
    have cb: "partition_cpubuff g ctx tensor entry acc i = Inr (cpubuff_e entry)"
      using assms by (simp add: partition_cpubuff_def)
    define e where "e = make_partition g entry sz bound acc i (cpubuff_e entry) c"
    have i31: "\<not> (2 :: nat) ^ 31 \<le> i + 1" using less.prems(3) cd by simp
    have step: "PartitionTensor_loop g ctx tensor entry sz bound acc i parts =
        PartitionTensor_loop g ctx tensor entry sz bound (acc + l) (i + 1) (parts @ [e])"
      using True c cb i31 by (subst PartitionTensor_loop.simps) (simp add: l_def e_def)
    have "sz - (acc + l) < sz - acc" using lpos True by simp
    moreover have "compressor_list ctx = [] \<or> (i + 1) + ceil_div (sz - (acc + l)) bound \<le> length (compressor_list ctx)"
      using less.prems(2) cd by auto
    moreover have "(i + 1) + ceil_div (sz - (acc + l)) bound < 2 ^ 31"
      using less.prems(3) cd by simp
    ultimately obtain ps where ps: "PartitionTensor_loop g ctx tensor entry sz bound (acc + l) (i + 1) (parts @ [e]) = Some (Inr ((parts @ [e]) @ ps))"
      "length ps = ceil_div (sz - (acc + l)) bound"
      "ps \<noteq> [] \<longrightarrow> map len ps = replicate (length ps - 1) bound @ [sz - (acc + l) - (length ps - 1) * bound]"
      using less.hyps[of "acc + l" "i + 1" "parts @ [e]"] lpos by blast
    have le: "len e = l" by (simp add: e_def make_partition_def l_def)
    have "map len (e # ps) = replicate (length (e # ps) - 1) bound @ [sz - acc - (length (e # ps) - 1) * bound]"
    proof (cases "ps = []")
      case True
      then have "ceil_div (sz - (acc + l)) bound = 0" using ps(2) by simp
      then have "sz - (acc + l) = 0" using assms(1) by (simp add: ceil_div_def div_eq_0_iff split: if_splits) 
      then have "l = sz - acc" using lpos by simp
      then show ?thesis using True le by simp
    next
      case False
      then have "0 < ceil_div (sz - (acc + l)) bound" using ps(2) by (metis length_greater_0_conv)
      then have "sz - (acc + l) > 0" using assms(1) by (cases "sz - (acc + l) = 0") (simp_all add: ceil_div_0)
      then have lb: "l = bound" using l by (auto split: if_splits)
      have "length ps - 1 + 1 = length ps" using False by (cases ps) auto
      then have "replicate (length ps) bound = bound # replicate (length ps - 1) bound"
        by (metis Suc_eq_plus1 replicate_Suc)
      moreover have "sz - (acc + l) - (length ps - 1) * bound = sz - acc - length ps * bound"
        using lb False by (cases ps) (auto simp: algebra_simps)
      ultimately show ?thesis using ps(3) False le lb by simp
    qed
    then show ?thesis using step ps cd by (intro exI[of _ "e # ps"]) simp
  qed
qed




text \<open>
  The rounded-up quotient alone does not decide the outcome.  A context that holds one
  compressor (it was initialised when the tensor had a single partition) and is given
  5,000,000 bytes under the bound 4,096,000 reads \<^verbatim>\<open>compressor_list[1]\<close> past the end of
  the vector: the behaviour is undefined and no list of partitions is produced.
\<close>

theorem PartitionTensor_short_compressor_list:
  "op_type (demo_context\<lparr>compressor_list := [0]\<rparr>) = PUSH_PULL_OP
   \<and> entry_size (Some demo_tensor) None = Inr 5000000
   \<and> GetPartitionBound demo_knobs = 4096000
   \<and> counter_ptr demo_entry = Some 0
   \<and> PartitionTensor demo_knobs (demo_context\<lparr>compressor_list := [0]\<rparr>) (Some demo_tensor) None
        demo_entry
       = Some (Inl UndefinedBehaviour)"
  by (simp add: PartitionTensor_def entry_size_def demo_tensor_def demo_knobs_def
      GetPartitionBound_def PartitionTensor_loop.simps partition_cpubuff_def demo_context_def
      new_context_def partition_compressor_def partition_len_def demo_entry_def)

text \<open>
  Claim C1, amended.  A push-pull submission of \<open>N > 0\<close> bytes under a partition bound
  \<open>B > 0\<close>, whose entry has its counter, whose context has no compressors or at least
  \<open>\<lceil>N / B\<rceil>\<close> of them, and with \<open>\<lceil>N / B\<rceil> < 2 ^ 31\<close> (the partition counter is an
  \<^verbatim>\<open>int\<close>), is cut by \<^verbatim>\<open>PartitionTensor\<close> into exactly \<open>\<lceil>N / B\<rceil>\<close> partitions; every
  partition but the last has length \<open>B\<close>, the last has length \<open>N - (\<lceil>N / B\<rceil> - 1) * B\<close>, and
  the lengths add up to \<open>N\<close>.  The last two conjuncts say that \<open>ceil_div\<close> is the rounded-up
  quotient.
\<close>

theorem PartitionTensor_partitions:
  assumes "op_type ctx = PUSH_PULL_OP"
    and "entry_size tensor output = Inr N"
    and "0 < N"
    and "0 < GetPartitionBound k"
    and "counter_ptr entry \<noteq> None"
    and "compressor_list ctx = [] \<or> ceil_div N (GetPartitionBound k) \<le> length (compressor_list ctx)"
    and "ceil_div N (GetPartitionBound k) < 2 ^ 31"
  shows "\<exists>ps. PartitionTensor k ctx tensor output entry = Some (Inr ps)
           \<and> length ps = ceil_div N (GetPartitionBound k)
           \<and> (\<forall>i. i + 1 < length ps \<longrightarrow> len (ps ! i) = GetPartitionBound k)
           \<and> len (last ps) = N - (ceil_div N (GetPartitionBound k) - 1) * GetPartitionBound k
           \<and> sum_list (map len ps) = N
           \<and> (ceil_div N (GetPartitionBound k) - 1) * GetPartitionBound k < N
           \<and> N \<le> ceil_div N (GetPartitionBound k) * GetPartitionBound k"
proof -
  define B where "B = GetPartitionBound k"
  have B32: "B < 2 ^ 32" using unsigned_less[of "partition_bytes k", where 'a=nat] by (simp add: B_def GetPartitionBound_def)
  have Bpos: "0 < B" using assms(4) by (simp add: B_def)
  obtain ps where ps: "PartitionTensor_loop k ctx tensor entry N B 0 0 [] = Some (Inr ([] @ ps))"
      "length ps = ceil_div (N - 0) B"
      "ps \<noteq> [] \<longrightarrow> map len ps = replicate (length ps - 1) B @ [N - 0 - (length ps - 1) * B]"
    using PartitionTensor_loop_returns[OF Bpos B32 assms(1), of 0 N 0 k tensor entry "[]"] assms(6,7)
    by (auto simp: B_def)
  have bnds: "(ceil_div N B - 1) * B < N" "N \<le> ceil_div N B * B"
    using ceil_div_bounds[OF Bpos assms(3)] by auto
  have npos: "0 < ceil_div N B" using bnds(2) assms(3) by (cases "ceil_div N B = 0") auto
  then have ne: "ps \<noteq> []" using ps(2) by auto
  then have m: "map len ps = replicate (length ps - 1) B @ [N - (length ps - 1) * B]" using ps(3) by simp
  have run: "PartitionTensor k ctx tensor output entry = Some (Inr ps)"
    using ps(1) assms(2,5) by (simp add: PartitionTensor_def B_def)
  have full: "\<forall>i. i + 1 < length ps \<longrightarrow> len (ps ! i) = B"
  proof (intro allI impI)
    fix i assume i: "i + 1 < length ps"
    then have "len (ps ! i) = map len ps ! i" by simp
    also have "\<dots> = B"
    proof -
      have "i < length ps - 1" using i by simp
      then show ?thesis by (simp add: m nth_append)
    qed
    finally show "len (ps ! i) = B" .
  qed
  have "len (last ps) = last (map len ps)" using ne by (simp add: last_map)
  then have lst: "len (last ps) = N - (ceil_div N B - 1) * B" using m ps(2) by simp
  have "sum_list (map len ps) = (length ps - 1) * B + (N - (length ps - 1) * B)"
    by (simp add: m sum_list_replicate)
  then have sm: "sum_list (map len ps) = N" using bnds(1) ps(2) by simp
  show ?thesis using run ps(2) full lst sm bnds unfolding B_def by auto
qed

text \<open>The theorem at the configuration above: 5,000,000 bytes make two partitions.\<close>

theorem PartitionTensor_partitions_witness:
  "op_type demo_context = PUSH_PULL_OP
   \<and> entry_size (Some demo_tensor) None = Inr 5000000
   \<and> 0 < GetPartitionBound demo_knobs
   \<and> counter_ptr demo_entry \<noteq> None
   \<and> compressor_list demo_context = []
   \<and> ceil_div 5000000 (GetPartitionBound demo_knobs) < 2 ^ 31
   \<and> (\<exists>ps. PartitionTensor demo_knobs demo_context (Some demo_tensor) None demo_entry = Some (Inr ps)
           \<and> length ps = 2
           \<and> (\<forall>i. i + 1 < length ps \<longrightarrow> len (ps ! i) = 4096000)
           \<and> len (last ps) = 904000
           \<and> sum_list (map len ps) = 5000000)"
  using PartitionTensor_partitions[of demo_context "Some demo_tensor" None 5000000 demo_knobs demo_entry]
  by (simp add: demo_context_def new_context_def entry_size_def demo_tensor_def demo_knobs_def
      GetPartitionBound_def ceil_div_def demo_entry_def)

section \<open>Submissions after shutdown\<close>

text \<open>
  Claim C10.  When the process-wide shutdown flag is set, \<^verbatim>\<open>EnqueueTensor\<close>,
  \<^verbatim>\<open>EnqueueAlltoAllTensor\<close> and \<^verbatim>\<open>EnqueueAllgatherTensor\<close> each return \<^verbatim>\<open>Status::OK\<close> at
  once and leave the state as it was: no task is added to any queue and no callback is
  invoked.
\<close>

theorem Enqueue_after_shutdown:
  assumes "should_shutdown g"
  shows "EnqueueTensor k context input output dev prio ver cb ql g
           = Some (Inr (Status_OK, ql, context, g))
         \<and> EnqueueAlltoAllTensor k name has_input unit_size group_inputs_size size_output
             input_device out_device prio ver cb send_begin recv_begin output_size_unknown g
           = Inr (Status_OK, g)
         \<and> EnqueueAllgatherTensor k context input dev prio ver shapes cb g = Inr (Status_OK, g)"
proof (intro conjI)
  show "EnqueueTensor k context input output dev prio ver cb ql g
           = Some (Inr (Status_OK, ql, context, g))"
    using assms by (simp add: EnqueueTensor_def)
  show "EnqueueAlltoAllTensor k name has_input unit_size group_inputs_size size_output
             input_device out_device prio ver cb send_begin recv_begin output_size_unknown g
           = Inr (Status_OK, g)"
    using assms by (simp add: EnqueueAlltoAllTensor_def)
  show "EnqueueAllgatherTensor k context input dev prio ver shapes cb g = Inr (Status_OK, g)"
    using assms by (simp add: EnqueueAllgatherTensor_def)
qed

theorem Enqueue_after_shutdown_witness:
  "should_shutdown (demo_global\<lparr>should_shutdown := True\<rparr>)
   \<and> EnqueueTensor demo_knobs demo_context (Some demo_tensor) (Some demo_tensor) 0 0 0 7
        [REDUCE, COPYD2H, PUSH, PULL, COPYH2D, BROADCAST] (demo_global\<lparr>should_shutdown := True\<rparr>)
       = Some (Inr (Status_OK, [REDUCE, COPYD2H, PUSH, PULL, COPYH2D, BROADCAST], demo_context,
                    demo_global\<lparr>should_shutdown := True\<rparr>))
   \<and> EnqueueAlltoAllTensor demo_knobs ''a2a'' True 4 0 False 0 0 0 0 7 [0, 100, 300] [0, 50, 200]
        False (demo_global\<lparr>should_shutdown := True\<rparr>)
       = Inr (Status_OK, demo_global\<lparr>should_shutdown := True\<rparr>)
   \<and> EnqueueAllgatherTensor demo_knobs demo_context (Some demo_tensor) 0 0 0 [] 7
        (demo_global\<lparr>should_shutdown := True\<rparr>)
       = Inr (Status_OK, demo_global\<lparr>should_shutdown := True\<rparr>)"
  using Enqueue_after_shutdown[of "demo_global\<lparr>should_shutdown := True\<rparr>" demo_knobs demo_context
      "Some demo_tensor" "Some demo_tensor" 0 0 0 7 "[REDUCE, COPYD2H, PUSH, PULL, COPYH2D, BROADCAST]"
      "''a2a''" True 4 0 False 0 0 "[0, 100, 300]" "[0, 50, 200]" False "[]"]
  by simp

section \<open>Declarations\<close>






lemma demo_declare:
  "DeclareTensor ''grad'' PUSH_PULL_OP (- 1) (- 1) demo_global = Inr (0, demo_declared)"
  by (simp add: DeclareTensor_def demo_global_def session_tensor_name_def c_str_def
      generate_key.simps demo_context_def demo_declared_def Let_def)



text \<open>
  Claim C2.  Replaying the remembered declarations after a shutdown is meant to give
  every tensor the key it had.  It does not: \<^verbatim>\<open>Shutdown\<close> clears \<^verbatim>\<open>next_keys_\<close> but not
  \<^verbatim>\<open>used_keys_\<close>, so the replay skips every key that was in use.  A single tensor declared
  with key 0 comes back from \<^verbatim>\<open>byteps_suspend\<close> and \<^verbatim>\<open>byteps_resume\<close> with key 1.
\<close>

theorem ReDeclareTensor_changes_key:
  "declared_key_of ''grad'' (map_sum id snd (DeclareTensor ''grad'' PUSH_PULL_OP (- 1) (- 1) demo_global)) = Some 0
   \<and> declared_key_of ''grad''
        (and_then (DeclareTensor ''grad'' PUSH_PULL_OP (- 1) (- 1) demo_global)
           (\<lambda>r. byteps_resume demo_knobs (byteps_suspend (snd r)))) = Some 1"
  unfolding demo_declare
  by (simp add: declared_key_of_def and_then_def byteps_resume_def byteps_suspend_def
      byteps_init_def Init_def Shutdown_def ReDeclareTensor_def DeclareTensor_def
      session_tensor_name_def c_str_def generate_key.simps demo_global_def demo_declared_def
      demo_context_def new_context_def Let_def)

section \<open>The stage list of a compressed tensor\<close>

lemma find_stage_first: "q \<notin> set a \<Longrightarrow> find_stage q (a @ q # b) = length a"
  by (induction a) (auto simp: find_stage_def)

lemma insert_stage_split: "insert_stage (length a) q (a @ b) = Inr (a @ q # b)"
  by (simp add: insert_stage_def)

lemma insert_stage_after: "insert_stage (length a + 1) q (a @ x # b) = Inr (a @ x # q # b)"
  using insert_stage_split[of "a @ [x]" q b] by simp

lemma EnqueueTensor_add_queue_compress:
  assumes "is_root_device k" and "compressor_list context \<noteq> []"
  shows "(PUSH \<notin> set a \<and> PULL \<notin> set a \<and> PULL \<notin> set b \<longrightarrow>
            EnqueueTensor_add_queue k context (a @ PUSH # b @ PULL # c)
              = Inr (a @ COMPRESS # PUSH # b @ PULL # DECOMPRESS # c))
         \<and> (PULL \<notin> set a \<and> PUSH \<notin> set a \<and> PUSH \<notin> set b \<longrightarrow>
            EnqueueTensor_add_queue k context (a @ PULL # b @ PUSH # c)
              = Inr (a @ PULL # DECOMPRESS # b @ COMPRESS # PUSH # c))"
proof (intro conjI impI)
  assume h: "PUSH \<notin> set a \<and> PULL \<notin> set a \<and> PULL \<notin> set b"
  have f1: "find_stage PUSH (a @ PUSH # b @ PULL # c) = length a"
    using h by (simp add: find_stage_first)
  have i1: "insert_stage (length a) COMPRESS (a @ PUSH # b @ PULL # c)
              = Inr (a @ COMPRESS # PUSH # b @ PULL # c)"
    by (rule insert_stage_split)
  have f2: "find_stage PULL ((a @ COMPRESS # PUSH # b) @ PULL # c) = length (a @ COMPRESS # PUSH # b)"
    using h by (intro find_stage_first) simp
  have i2: "insert_stage (length (a @ COMPRESS # PUSH # b) + 1) DECOMPRESS ((a @ COMPRESS # PUSH # b) @ PULL # c)
              = Inr ((a @ COMPRESS # PUSH # b) @ PULL # DECOMPRESS # c)"
    by (rule insert_stage_after)
  show "EnqueueTensor_add_queue k context (a @ PUSH # b @ PULL # c)
              = Inr (a @ COMPRESS # PUSH # b @ PULL # DECOMPRESS # c)"
    using assms f1 i1 f2 i2 by (simp add: EnqueueTensor_add_queue_def and_then_def)
next
  assume h: "PULL \<notin> set a \<and> PUSH \<notin> set a \<and> PUSH \<notin> set b"
  have f1: "find_stage PUSH ((a @ PULL # b) @ PUSH # c) = length (a @ PULL # b)"
    using h by (intro find_stage_first) simp
  have i1: "insert_stage (length (a @ PULL # b)) COMPRESS ((a @ PULL # b) @ PUSH # c)
              = Inr ((a @ PULL # b) @ COMPRESS # PUSH # c)"
    by (rule insert_stage_split)
  have f2: "find_stage PULL (a @ PULL # b @ COMPRESS # PUSH # c) = length a"
    using h by (simp add: find_stage_first)
  have i2: "insert_stage (length a + 1) DECOMPRESS (a @ PULL # b @ COMPRESS # PUSH # c)
              = Inr (a @ PULL # DECOMPRESS # b @ COMPRESS # PUSH # c)"
    by (rule insert_stage_after)
  show "EnqueueTensor_add_queue k context (a @ PULL # b @ PUSH # c)
              = Inr (a @ PULL # DECOMPRESS # b @ COMPRESS # PUSH # c)"
    using assms f1 i1 f2 i2 by (simp add: EnqueueTensor_add_queue_def and_then_def)
qed

text \<open>
  What \<^verbatim>\<open>EnqueueTensor\<close> hands back as the stage list is the result of the rewriting
  block, whenever it gets that far and returns.
\<close>

lemma EnqueueTensor_queue_list:
  assumes "\<not> should_shutdown g"
    and "EnqueueTensor k context input output dev prio ver cb ql g = Some (Inr (st, ql', context', g'))"
  shows "EnqueueTensor_add_queue k context ql = Inr ql'"
  using assms
  by (simp add: EnqueueTensor_def Let_def split: if_splits sum.splits option.splits list.splits prod.splits)

text \<open>
  The submission of the 5,000,000-byte gradient, with a compressor on each of its two
  partitions: two tasks on the \<^verbatim>\<open>REDUCE\<close> queue, keys 1024 and 1025, lengths 4,096,000 and
  904,000, and the callback recorded under the first key.
\<close>

lemma demo_partition:
  "counter_ptr e \<noteq> None \<Longrightarrow>
   PartitionTensor demo_knobs demo_compress_context (Some demo_tensor) (Some demo_tensor) e
     = Some (Inr [make_partition demo_knobs e 5000000 4096000 0 0 (cpubuff_e e) (Some 0),
                  make_partition demo_knobs e 5000000 4096000 4096000 1 (cpubuff_e e) (Some 1)])"
  by (simp add: PartitionTensor_def entry_size_def demo_tensor_def demo_knobs_def GetPartitionBound_def
      PartitionTensor_loop.simps partition_cpubuff_def demo_compress_context_def demo_context_def new_context_def
      partition_compressor_def partition_len_def)


lemma demo_fields:
  "\<not> should_shutdown demo_global" "is_root_device demo_knobs" "GetPhyNodeNum demo_knobs = 2"
  "\<not> is_gdr demo_knobs" "op_type demo_compress_context = PUSH_PULL_OP"
  "compressor_list demo_compress_context = [0, 1]" "key_list demo_compress_context = [1024, 1025]"
  "tensor_name demo_compress_context = ''grad''" "cpubuff demo_compress_context = nullptr"
  "gpu_ptr demo_compress_context = nullptr" "pcie_cpubuff demo_compress_context = []"
  "numa_cpubuff demo_compress_context = []"
  "tensor_size demo_tensor = 5000000" "queues demo_global = (\<lambda>q. [])"
  by (simp_all add: demo_global_def demo_knobs_def demo_compress_context_def demo_context_def
      new_context_def demo_tensor_def GetPhyNodeNum_def)

lemma demo_enqueue:
  "EnqueueTensor demo_knobs demo_compress_context (Some demo_tensor) (Some demo_tensor) 0 0 0 7
        [REDUCE, COPYD2H, PUSH, PULL, COPYH2D, BROADCAST] demo_global
   = Some (Inr (Status_OK, [REDUCE, COPYD2H, COMPRESS, PUSH, PULL, DECOMPRESS, COPYH2D, BROADCAST],
        demo_compress_context, demo_enqueued))"
  by (simp add: EnqueueTensor_def demo_fields demo_partition demo_enqueued_def
      EnqueueTensor_add_queue_def and_then_def insert_stage_def find_stage_def
      entry_size_def make_partition_def partition_len_def
      CPU_DEVICE_ID_def addTask_def RecordCallback_def to_string.simps digit_char_def Let_def)
     (simp add: demo_global_def numeral_2_eq_2)

text \<open>
  Claim C6.  On the local root, for a context with a non-empty compressor list, the
  rewriting block of \<^verbatim>\<open>EnqueueTensor\<close> puts \<^verbatim>\<open>COMPRESS\<close> immediately before the (first)
  \<^verbatim>\<open>PUSH\<close> stage and \<^verbatim>\<open>DECOMPRESS\<close> immediately after the (first) \<^verbatim>\<open>PULL\<close> stage and leaves
  every other stage where it was, in either order of the two stages; and the stage list
  \<^verbatim>\<open>EnqueueTensor\<close> returns is the one this block produced.
\<close>

theorem EnqueueTensor_compress_stages:
  assumes "is_root_device k" and "compressor_list context \<noteq> []"
  shows "(PUSH \<notin> set a \<and> PULL \<notin> set a \<and> PULL \<notin> set b \<longrightarrow>
            EnqueueTensor_add_queue k context (a @ PUSH # b @ PULL # c)
              = Inr (a @ COMPRESS # PUSH # b @ PULL # DECOMPRESS # c))
         \<and> (PULL \<notin> set a \<and> PUSH \<notin> set a \<and> PUSH \<notin> set b \<longrightarrow>
            EnqueueTensor_add_queue k context (a @ PULL # b @ PUSH # c)
              = Inr (a @ PULL # DECOMPRESS # b @ COMPRESS # PUSH # c))
         \<and> (\<not> should_shutdown g
              \<and> EnqueueTensor k context input output dev prio ver cb ql g
                  = Some (Inr (st, ql', context', g')) \<longrightarrow>
            EnqueueTensor_add_queue k context ql = Inr ql')"
  using EnqueueTensor_add_queue_compress[OF assms, of a b c]
    EnqueueTensor_queue_list[of g k "context" "input" "output" dev prio ver cb ql st ql' context' g']
  by blast

theorem EnqueueTensor_compress_stages_witness:
  "is_root_device demo_knobs \<and> compressor_list demo_compress_context \<noteq> []
   \<and> PUSH \<notin> set [REDUCE, COPYD2H] \<and> PULL \<notin> set [REDUCE, COPYD2H] \<and> PULL \<notin> set []
   \<and> \<not> should_shutdown demo_global
   \<and> EnqueueTensor demo_knobs demo_compress_context (Some demo_tensor) (Some demo_tensor) 0 0 0 7
        [REDUCE, COPYD2H, PUSH, PULL, COPYH2D, BROADCAST] demo_global
       = Some (Inr (Status_OK,
                    [REDUCE, COPYD2H, COMPRESS, PUSH, PULL, DECOMPRESS, COPYH2D, BROADCAST],
                    demo_compress_context, demo_enqueued))
   \<and> EnqueueTensor_add_queue demo_knobs demo_compress_context
        [REDUCE, COPYD2H, PUSH, PULL, COPYH2D, BROADCAST]
       = Inr [REDUCE, COPYD2H, COMPRESS, PUSH, PULL, DECOMPRESS, COPYH2D, BROADCAST]"
  using EnqueueTensor_compress_stages[of demo_knobs demo_compress_context "[REDUCE, COPYD2H]" "[]"
      "[COPYH2D, BROADCAST]" demo_global "Some demo_tensor" "Some demo_tensor" 0 0 0 7
      "[REDUCE, COPYD2H, PUSH, PULL, COPYH2D, BROADCAST]" Status_OK
      "[REDUCE, COPYD2H, COMPRESS, PUSH, PULL, DECOMPRESS, COPYH2D, BROADCAST]"
      demo_compress_context demo_enqueued]
    demo_enqueue demo_fields
  by simp

section \<open>The memoised server assignment\<close>

lemma EncodeDefaultKey_hit:
  assumes "ps_kv g ky = Some p" and "keys p \<noteq> []"
  shows "EncodeDefaultKey k ky ln g =
     (if ln > 0 \<and> nat (pskv_size p mod 2 ^ 64) \<noteq> ln then
        (if lens p = [] then Inl UndefinedBehaviour
         else Inr (p\<lparr>pskv_size := to_int32 (int ln), lens := (lens p)[0 := to_int32 (int ln)]\<rparr>,
                   g\<lparr>ps_kv := (ps_kv g)(ky \<mapsto> p\<lparr>pskv_size := to_int32 (int ln),
                                                    lens := (lens p)[0 := to_int32 (int ln)]\<rparr>)\<rparr>))
      else Inr (p, g))"
  using assms by (simp add: EncodeDefaultKey_def Let_def)

lemma EncodeDefaultKey_miss:
  assumes "ps_kv g ky = None \<or> (\<exists>p. ps_kv g ky = Some p \<and> keys p = [])"
    and "EncodeDefaultKey k ky ln g = Inr (p', g')"
  shows "keys p' \<noteq> [] \<and> lens p' \<noteq> [] \<and> ps_kv g' = (ps_kv g)(ky \<mapsto> p')"
proof -
  have e: "keys (case ps_kv g ky of None \<Rightarrow> \<lparr>keys = [], lens = [], pskv_size = 0\<rparr> | Some p \<Rightarrow> p) = []"
    using assms(1) by auto
  show ?thesis
    using assms(2) unfolding EncodeDefaultKey_def Let_def
    by (simp only: e) (auto split: sum.splits if_splits)
qed

text \<open>A successful call stores what it returns, with a key and a length.\<close>

lemma EncodeDefaultKey_stores:
  assumes "memo_ok g" and "EncodeDefaultKey k ky ln g = Inr (p', g')"
  shows "ps_kv g' = (ps_kv g)(ky \<mapsto> p') \<and> keys p' \<noteq> [] \<and> lens p' \<noteq> []"
proof (cases "ps_kv g ky = None \<or> (\<exists>p. ps_kv g ky = Some p \<and> keys p = [])")
  case True
  then show ?thesis using EncodeDefaultKey_miss[OF True assms(2)] by auto
next
  case False
  then obtain p where p: "ps_kv g ky = Some p" "keys p \<noteq> []" by auto
  then have l: "lens p \<noteq> []" using assms(1) by (auto simp: memo_ok_def)
  have t: "(ps_kv g)(ky \<mapsto> p) = ps_kv g" using p(1) by (rule map_upd_triv)
  show ?thesis
    using assms(2) p l t unfolding EncodeDefaultKey_hit[OF p]
    by (auto split: if_splits)
qed

lemma EncodeDefaultKey_memo_ok:
  assumes "memo_ok g" and "EncodeDefaultKey k ky ln g = Inr (p', g')"
  shows "memo_ok g'"
proof -
  have "lens p' \<noteq> []" "ps_kv g' = (ps_kv g)(ky \<mapsto> p')"
    using EncodeDefaultKey_stores[OF assms] by auto
  then show ?thesis using assms(1) by (auto simp: memo_ok_def split: if_splits)
qed

text \<open>A successful call for any key leaves the keys of every stored entry as they are.\<close>

lemma EncodeDefaultKey_keeps:
  assumes "memo_ok g" and "ps_kv g ky = Some p" and "keys p \<noteq> []"
    and "EncodeDefaultKey k ky' ln g = Inr (p', g')"
  shows "\<exists>q. ps_kv g' ky = Some q \<and> keys q = keys p"
proof (cases "ky' = ky")
  case True
  have "keys p' = keys p"
    using assms(4) unfolding True EncodeDefaultKey_hit[OF assms(2,3)]
    by (auto split: if_splits)
  moreover have "ps_kv g' ky = Some p'"
    using EncodeDefaultKey_stores[OF assms(1,4)] True by simp
  ultimately show ?thesis by simp
next
  case False
  have "ps_kv g' = (ps_kv g)(ky' \<mapsto> p')"
    using EncodeDefaultKey_stores[OF assms(1,4)] by simp
  then show ?thesis using False assms(2) by simp
qed

lemma EncodeDefaultKey_calls_keep:
  "memo_ok g \<Longrightarrow> ps_kv g ky = Some p \<Longrightarrow> keys p \<noteq> []
     \<Longrightarrow> EncodeDefaultKey_calls k calls g = Inr g'
     \<Longrightarrow> memo_ok g' \<and> (\<exists>q. ps_kv g' ky = Some q \<and> keys q = keys p)"
proof (induction calls arbitrary: g p)
  case Nil
  then show ?case by simp
next
  case (Cons c cs)
  obtain p1 g1 where d: "EncodeDefaultKey k (fst c) (snd c) g = Inr (p1, g1)"
      and r: "EncodeDefaultKey_calls k cs g1 = Inr g'"
    using Cons.prems(4) by (auto split: sum.splits)
  have ok: "memo_ok g1" using EncodeDefaultKey_memo_ok[OF Cons.prems(1) d] .
  obtain q where q: "ps_kv g1 ky = Some q" "keys q = keys p"
    using EncodeDefaultKey_keeps[OF Cons.prems(1,2,3) d] by blast
  have "keys q \<noteq> []" using q(2) Cons.prems(3) by simp
  then show ?case using Cons.IH[OF ok q(1) _ r] q(2) by simp
qed

lemma EncodeDefaultKey_calls_memo_ok:
  "memo_ok g \<Longrightarrow> EncodeDefaultKey_calls k calls g = Inr g' \<Longrightarrow> memo_ok g'"
proof (induction calls arbitrary: g)
  case Nil
  then show ?case by simp
next
  case (Cons c cs)
  obtain p1 g1 where d: "EncodeDefaultKey k (fst c) (snd c) g = Inr (p1, g1)"
      and r: "EncodeDefaultKey_calls k cs g1 = Inr g'"
    using Cons.prems(2) by (auto split: sum.splits)
  show ?case using Cons.IH[OF EncodeDefaultKey_memo_ok[OF Cons.prems(1) d] r] .
qed

lemma demo_encode_first:
  "EncodeDefaultKey demo_knobs_two 1025 100 demo_global_two
     = Inr (\<lparr>keys = [0x8000000000000401], lens = [100], pskv_size = 100\<rparr>, demo_encoded)"
  by (simp add: EncodeDefaultKey_def pick_server_def hash_mod_def Hash_Naive_def to_int32_def
      demo_knobs_two_def demo_knobs_def demo_global_two_def demo_global_def demo_encoded_def
      Let_def)

lemma demo_encode_more:
  "EncodeDefaultKey_calls demo_knobs_two [(1024, 50)] demo_encoded = Inr demo_encoded_more"
  by (simp add: EncodeDefaultKey_def pick_server_def hash_mod_def Hash_Naive_def to_int32_def
      demo_knobs_two_def demo_knobs_def demo_global_def demo_encoded_def demo_encoded_more_def
      Let_def)

text \<open>
  The assignment does not last for the lifetime of the process.  \<^verbatim>\<open>byteps_suspend\<close>
  clears the table, and the job may resume with another set of servers: key 1025, first
  assigned to the second of two servers, is assigned to the only server after the
  resume, under another server key.
\<close>

theorem EncodeDefaultKey_after_suspend:
  "EncodeDefaultKey demo_knobs_two 1025 100 demo_global_two
     = Inr (\<lparr>keys = [0x8000000000000401], lens = [100], pskv_size = 100\<rparr>, demo_encoded)
   \<and> map_sum id (keys \<circ> fst)
        (EncodeDefaultKey demo_knobs_one 1025 100
           (byteps_init demo_knobs_one (byteps_suspend demo_encoded)))
     = Inr [1025]"
  unfolding demo_encode_first
  by (simp add: EncodeDefaultKey_def pick_server_def hash_mod_def Hash_Naive_def to_int32_def
      demo_knobs_one_def demo_knobs_def demo_global_def
      demo_encoded_def byteps_init_def byteps_suspend_def Init_def Shutdown_def Let_def)

text \<open>
  Claim C4, amended.  From a state whose table of assignments is empty, as \<^verbatim>\<open>Init\<close>
  finds it at the start of the process and after every \<^verbatim>\<open>Shutdown\<close>, and for as long as
  there is no \<^verbatim>\<open>Shutdown\<close>: once \<^verbatim>\<open>EncodeDefaultKey\<close> has returned an assignment for a key,
  every later call for that key, after any run of calls for any keys and with any length,
  returns, and returns the same server key \<^verbatim>\<open>pskv.keys[0]\<close>.
\<close>

theorem EncodeDefaultKey_same_server:
  assumes "ps_kv g = Map.empty"
    and "EncodeDefaultKey_calls k before g = Inr ga"
    and "EncodeDefaultKey k ky ln0 ga = Inr (p0, g0)"
    and "EncodeDefaultKey_calls k calls g0 = Inr g1"
  shows "\<exists>p g2. EncodeDefaultKey k ky ln g1 = Inr (p, g2) \<and> keys p = keys p0 \<and> keys p \<noteq> []
           \<and> hd (keys p) = hd (keys p0)"
proof -
  have "memo_ok g" using assms(1) by (simp add: memo_ok_def)
  then have oka: "memo_ok ga" using EncodeDefaultKey_calls_memo_ok[OF _ assms(2)] by simp
  have s: "ps_kv g0 ky = Some p0" "keys p0 \<noteq> []"
    using EncodeDefaultKey_stores[OF oka assms(3)] by auto
  have ok0: "memo_ok g0" using EncodeDefaultKey_memo_ok[OF oka assms(3)] .
  obtain q where q: "memo_ok g1" "ps_kv g1 ky = Some q" "keys q = keys p0"
    using EncodeDefaultKey_calls_keep[OF ok0 s assms(4)] by blast
  have qk: "keys q \<noteq> []" using q(3) s(2) by simp
  then have "lens q \<noteq> []" using q(1,2) by (auto simp: memo_ok_def)
  then show ?thesis
    unfolding EncodeDefaultKey_hit[OF q(2) qk] using q(3) qk by auto
qed

text \<open>
  With two servers: key 1025 is assigned, then key 1024, and key 1025 asked for again
  with another length still has the server key it was given.
\<close>

theorem EncodeDefaultKey_same_server_witness:
  "ps_kv demo_global_two = Map.empty
   \<and> EncodeDefaultKey_calls demo_knobs_two [] demo_global_two = Inr demo_global_two
   \<and> EncodeDefaultKey demo_knobs_two 1025 100 demo_global_two
       = Inr (\<lparr>keys = [0x8000000000000401], lens = [100], pskv_size = 100\<rparr>, demo_encoded)
   \<and> EncodeDefaultKey_calls demo_knobs_two [(1024, 50)] demo_encoded = Inr demo_encoded_more
   \<and> (\<exists>p g2. EncodeDefaultKey demo_knobs_two 1025 200 demo_encoded_more = Inr (p, g2)
               \<and> keys p = [0x8000000000000401])"
proof -
  have e: "ps_kv demo_global_two = Map.empty"
    by (simp add: demo_global_two_def demo_global_def)
  have b: "EncodeDefaultKey_calls demo_knobs_two [] demo_global_two = Inr demo_global_two"
    by simp
  have "\<exists>p g2. EncodeDefaultKey demo_knobs_two 1025 200 demo_encoded_more = Inr (p, g2)
               \<and> keys p = [0x8000000000000401]"
    using EncodeDefaultKey_same_server[OF e b demo_encode_first demo_encode_more, of 200]
    by auto
  then show ?thesis using e b demo_encode_first demo_encode_more by simp
qed

section \<open>The layout of the keys\<close>

lemma ceil_div_next:
  assumes "0 < b" and "acc < sz"
  shows "ceil_div (sz - acc) b
           = Suc (ceil_div (sz - (acc + (if sz - acc > b then b else sz - acc))) b)"
proof (cases "sz - acc > b")
  case True
  then show ?thesis using assms ceil_div_step[of b "sz - acc"] by simp
next
  case False
  then show ?thesis using assms ceil_div_small[of "sz - acc" b] by (simp add: ceil_div_0)
qed

text \<open>The key loop returns only under a positive bound, and then it counts up.\<close>

lemma InitTensor_key_loop_bound:
  assumes "InitTensor_key_loop sz bound acc start kl = Some y"
  shows "acc < sz \<longrightarrow> 0 < bound"
proof (rule InitTensor_key_loop.raw_induct
    [where P = "\<lambda>sz bound acc start kl y. acc < sz \<longrightarrow> 0 < bound", OF _ assms])
  fix f :: "nat \<Rightarrow> nat \<Rightarrow> nat \<Rightarrow> 64 word \<Rightarrow> 64 word list \<Rightarrow> 64 word list option"
  fix sz bound acc start kl y
  assume ih: "\<And>sz bound acc start kl y. f sz bound acc start kl = Some y \<Longrightarrow> acc < sz \<longrightarrow> 0 < bound"
    and body: "(if acc < sz
                then f sz bound (acc + (if bound < sz - acc then bound else sz - acc))
                       (start + 1) (kl @ [start])
                else Some kl) = Some y"
  show "acc < sz \<longrightarrow> 0 < bound"
  proof (intro impI)
    assume a: "acc < sz"
    show "0 < bound"
    proof (rule ccontr)
      assume "\<not> 0 < bound"
      then have b: "bound = 0" by simp
      have "f sz bound acc (start + 1) (kl @ [start]) = Some y"
        using body a b by simp
      then show False using ih a b by blast
    qed
  qed
qed

lemma InitTensor_key_loop_returns:
  assumes "0 < bound"
  shows "acc \<le> sz \<Longrightarrow>
     InitTensor_key_loop sz bound acc start kl
       = Some (kl @ map (\<lambda>j. start + of_nat j) [0..<ceil_div (sz - acc) bound])"
proof (induction "sz - acc" arbitrary: acc start kl rule: less_induct)
  case less
  show ?case
  proof (cases "acc < sz")
    case False
    then have "acc = sz" using less.prems by simp
    then show ?thesis using assms
      by (subst InitTensor_key_loop.simps) (simp add: ceil_div_0)
  next
    case True
    define l where "l = (if sz - acc > bound then bound else sz - acc)"
    have lpos: "0 < l" "acc + l \<le> sz" using True assms by (auto simp: l_def)
    have cd: "ceil_div (sz - acc) bound = Suc (ceil_div (sz - (acc + l)) bound)"
      unfolding l_def using ceil_div_next[OF assms True] .
    have step: "InitTensor_key_loop sz bound acc start kl
                  = InitTensor_key_loop sz bound (acc + l) (start + 1) (kl @ [start])"
      using True by (subst InitTensor_key_loop.simps) (simp add: l_def)
    have "sz - (acc + l) < sz - acc" using lpos True by simp
    then have ih: "InitTensor_key_loop sz bound (acc + l) (start + 1) (kl @ [start])
        = Some ((kl @ [start]) @ map (\<lambda>j. start + 1 + of_nat j) [0..<ceil_div (sz - (acc + l)) bound])"
      using less.hyps[of "acc + l" "start + 1" "kl @ [start]"] lpos by simp
    have "map (\<lambda>j. start + of_nat j) [0..<Suc (ceil_div (sz - (acc + l)) bound)]
            = start # map (\<lambda>j. start + 1 + of_nat j) [0..<ceil_div (sz - (acc + l)) bound]"
      by (simp add: map_upt_Suc add.assoc del: upt_Suc)
    then show ?thesis using step ih cd by simp
  qed
qed
lemma InitTensor_key_list:
  assumes "\<not> initialized context" and "key_list context = []"
    and "InitTensor k context sz dtype_len cpubuff_given g = Some (Inr (context', g'))"
  shows "0 < GetPartitionBound k
         \<and> key_list context'
             = map (\<lambda>j. InitTensor_start_key (declared_key context) + of_nat j)
                 [0..<ceil_div sz (GetPartitionBound k)]"
proof -
  define B where "B = GetPartitionBound k"
  define start where "start = InitTensor_start_key (declared_key context)"
  have pos: "0 < sz" using assms by (auto simp: InitTensor_def Let_def split: if_splits)
  obtain kl where kl: "InitTensor_key_loop sz B 0 start [] = Some kl"
    using assms pos by (cases "InitTensor_key_loop sz B 0 start []")
      (auto simp: InitTensor_def B_def start_def)
  have b: "0 < B" using InitTensor_key_loop_bound[OF kl] pos by simp
  have k: "kl = map (\<lambda>j. start + of_nat j) [0..<ceil_div sz B]"
    using InitTensor_key_loop_returns[OF b, of 0 sz start "[]"] kl by simp
  have "key_list context' = kl"
    using assms pos kl unfolding InitTensor_def Let_def B_def[symmetric] start_def[symmetric]
    by (auto split: if_splits sum.splits option.splits prod.splits)
  then show ?thesis using b k by (simp add: B_def start_def)
qed

lemma InitTensorP2P_key_list:
  assumes "\<not> initialized context" and "key_list context = []"
    and "InitTensorP2P k context sz sender0 receiver0 g = Some (Inr (context', g'))"
  shows "0 < GetPartitionBound k
         \<and> key_list context'
             = map (\<lambda>j. InitTensorP2P_start_key (if sender0 = - 1 then rank k else sender0)
                           (declared_key context) + of_nat j)
                 [0..<ceil_div sz (GetPartitionBound k)]"
proof -
  define B where "B = GetPartitionBound k"
  define start where "start = InitTensorP2P_start_key (if sender0 = - 1 then rank k else sender0)
                           (declared_key context)"
  have pos: "0 < sz" using assms by (auto simp: InitTensorP2P_def Let_def split: if_splits)
  obtain kl where kl: "InitTensor_key_loop sz B 0 start [] = Some kl"
    using assms pos by (cases "InitTensor_key_loop sz B 0 start []")
      (auto simp: InitTensorP2P_def B_def start_def Let_def split: if_splits)
  have b: "0 < B" using InitTensor_key_loop_bound[OF kl] pos by simp
  have k: "kl = map (\<lambda>j. start + of_nat j) [0..<ceil_div sz B]"
    using InitTensor_key_loop_returns[OF b, of 0 sz start "[]"] kl by simp
  have "key_list context' = kl"
    using assms pos kl unfolding InitTensorP2P_def Let_def B_def[symmetric] start_def[symmetric]
    by (auto split: if_splits sum.splits option.splits prod.splits)
  then show ?thesis using b k by (simp add: B_def start_def)
qed

lemma InitTensor_start_key_value:
  assumes "0 \<le> d" and "d < 2 ^ 15"
  shows "InitTensor_start_key d = word_of_int (d * 2 ^ 16 + 2 ^ 10)"
proof -
  have r: "- (2 ^ 31) \<le> d * 65536" "d * 65536 < 2 ^ 31" using assms by simp_all
  have "sint (word_of_int (d * 65536) :: 32 word) = d * 65536"
    unfolding sint_sbintrunc' using r by (simp add: signed_take_bit_int_eq_self)
  moreover have "push_bit 16 (word_of_int d :: 32 word) = word_of_int (d * 65536)"
    by (simp add: push_bit_eq_mult)
  ultimately have "(scast (push_bit 16 (word_of_int d :: 32 word)) :: 64 word) = word_of_int (d * 65536)"
    by (simp add: scast_eq)
  then show ?thesis by (simp add: InitTensor_start_key_def push_bit_eq_mult)
qed

lemma InitTensorP2P_start_key_value:
  "InitTensorP2P_start_key s d = word_of_int (s * 2 ^ 32 + d * 2 ^ 16 + 2 * 2 ^ 10)"
  by (simp add: InitTensorP2P_start_key_def push_bit_eq_mult)

lemma uint_key:
  "0 \<le> x \<Longrightarrow> x < 2 ^ 64 \<Longrightarrow> uint (word_of_int x :: 64 word) = x"
  by (simp add: uint_word_of_int take_bit_int_eq_self)

lemma low_bits: "i < 1024 \<Longrightarrow> (d * 2 ^ 16 + 2 ^ 10 + int i) mod 2 ^ 10 = int i"
proof -
  assume i: "i < 1024"
  have e: "d * 65536 + 1024 + int i = int i + (d * 64 + 1) * 1024" by simp
  have "(d * 65536 + 1024 + int i) mod 1024 = int i mod 1024"
    unfolding e by (simp only: mod_mult_self1)
  then show ?thesis using i by simp
qed

lemma high_bits:
  "0 \<le> d \<Longrightarrow> d < 2 ^ 16 \<Longrightarrow> i < 1024
     \<Longrightarrow> (s * 2 ^ 32 + d * 2 ^ 16 + 2 * 2 ^ 10 + int i) div 2 ^ 32 = s"
  by simp
lemma to_int32_small: "x < 2 ^ 31 \<Longrightarrow> to_int32 (int x) = int x"
  unfolding to_int32_def sint_sbintrunc' by (simp add: signed_take_bit_int_eq_self)

text \<open>
  On a rank that does not push, the registration loop of \<^verbatim>\<open>InitTensor\<close> only counts the
  partitions.
\<close>

lemma InitTensor_register_local:
  assumes "0 < bound" and "bound < 2 ^ 31" and "sz < 2 ^ 64"
  shows "acc \<le> sz \<Longrightarrow> i + ceil_div (sz - acc) bound \<le> length kl \<Longrightarrow>
     InitTensor_register k False mc kl sz bound acc i comps g
       = Some (Inr (sz, i + ceil_div (sz - acc) bound, comps, g))"
proof (induction "sz - acc" arbitrary: acc i rule: less_induct)
  case less
  show ?case
  proof (cases "acc < sz")
    case False
    then have "acc = sz" using less.prems by simp
    then show ?thesis using assms
      by (subst InitTensor_register.simps) (simp add: ceil_div_0)
  next
    case True
    define l where "l = (if sz - acc > bound then bound else sz - acc)"
    have lpos: "0 < l" "acc + l \<le> sz" "l < 2 ^ 31" using True assms by (auto simp: l_def)
    have cd: "ceil_div (sz - acc) bound = Suc (ceil_div (sz - (acc + l)) bound)"
      unfolding l_def using ceil_div_next[OF assms(1) True] .
    have i: "i < length kl" using less.prems(2) cd by simp
    have "acc + l < 2 ^ 64" using lpos(2) assms(3) by simp
    then have "int (acc + l) < int (2 ^ 64)" by (simp only: of_nat_less_iff)
    then have "int acc + int l < 2 ^ 64" by simp
    then have a: "nat ((int acc + to_int32 (int l)) mod 2 ^ 64) = acc + l"
      using to_int32_small[OF lpos(3)] by (simp add: nat_add_distrib)
    have step: "InitTensor_register k False mc kl sz bound acc i comps g
                  = InitTensor_register k False mc kl sz bound (acc + l) (i + 1) comps g"
      using True i a by (subst InitTensor_register.simps) (simp add: l_def Let_def)
    have "sz - (acc + l) < sz - acc" using lpos True by simp
    moreover have "(i + 1) + ceil_div (sz - (acc + l)) bound \<le> length kl"
      using less.prems(2) cd by simp
    ultimately have "InitTensor_register k False mc kl sz bound (acc + l) (i + 1) comps g
        = Some (Inr (sz, (i + 1) + ceil_div (sz - (acc + l)) bound, comps, g))"
      using less.hyps[of "acc + l" "i + 1"] lpos by simp
    then show ?thesis using step cd by simp
  qed
qed

lemma demo_init_tensor:
  "InitTensor demo_knobs demo_context 5000000 4 False demo_global
     = Some (Inr (demo_initialised_context, demo_initialised))"
  by (simp add: InitTensor_def InitTensor_key_loop.simps InitTensor_register.simps
      InitTensor_start_key_def GetPartitionBound_def Align_def InitTensor_buffers_def
      EncodeDefaultKey_def pick_server_def hash_mod_def to_int32_def int32_def and_then_def
      demo_knobs_def demo_context_def new_context_def demo_global_def
      demo_initialised_context_def demo_initialised_def Let_def)

lemma demo_init_p2p:
  "InitTensorP2P demo_knobs_two demo_p2p_context 5000000 1 0 demo_global_two
     = Some (Inr (demo_p2p_initialised_context, demo_global_two))"
  by (simp add: InitTensorP2P_def InitTensor_key_loop.simps InitTensorP2P_start_key_def
      GetPartitionBound_def EncodeP2PKey_def to_int32_def
      demo_knobs_two_def demo_knobs_def demo_p2p_context_def new_context_def
      demo_p2p_initialised_context_def Let_def)
lemma demo_init_local:
  "InitTensor demo_knobs_local demo_context 4194305 4 False demo_global
     = Some (Inr (demo_context\<lparr>key_list := map (\<lambda>j. 1024 + of_nat j) [0..<1025],
                                cpubuff := staging 4194432, initialized := True\<rparr>,
                  demo_global))"
proof -
  have f: "GetPartitionBound demo_knobs_local = 4096" "\<not> cross_pcie_switch demo_knobs_local"
    "\<not> is_gdr demo_knobs_local" "\<not> gpu_allreduce_disabled demo_knobs_local"
    "\<not> is_distributed demo_knobs_local" "min_compress_bound demo_knobs_local = 65536"
    by (simp_all add: demo_knobs_local_def demo_knobs_def GetPartitionBound_def)
  have kl: "InitTensor_key_loop 4194305 4096 0 1024 []
              = Some (map (\<lambda>j. 1024 + of_nat j) [0..<1025])"
    using InitTensor_key_loop_returns[of 4096 0 4194305 1024 "[]"] by (simp add: ceil_div_def)
  have reg: "InitTensor_register demo_knobs_local False False
               (map (\<lambda>j. 1024 + of_nat j) [0..<1025]) 4194305 4096 0 0 [] demo_global
             = Some (Inr (4194305, 1025, [], demo_global))"
    using InitTensor_register_local[of 4096 4194305 0 0 "map (\<lambda>j. 1024 + of_nat j) [0..<1025]"
        demo_knobs_local False "[]" demo_global]
    by (simp add: ceil_div_def)
  show ?thesis
    by (simp add: InitTensor_def f kl reg InitTensor_start_key_def Align_def
        InitTensor_buffers_def int32_def and_then_def demo_context_def new_context_def Let_def
        del: upt_rec_numeral)
qed

lemma InitTensor_keys:
  assumes "\<not> initialized context" and "key_list context = []"
    and "InitTensor k context sz dtype_len cpubuff_given g = Some (Inr (context', g'))"
    and "0 \<le> declared_key context" and "declared_key context < 2 ^ 15"
    and "i < length (key_list context')"
  shows "key_list context' ! i = word_of_int (declared_key context * 2 ^ 16 + 2 ^ 10 + int i)"
    and "i < 1024 \<Longrightarrow> uint (key_list context' ! i) = declared_key context * 2 ^ 16 + 2 ^ 10 + int i"
    and "i < 1024 \<Longrightarrow> uint (key_list context' ! i) mod 2 ^ 10 = int i"
proof -
  define d where "d = declared_key context"
  define n where "n = ceil_div sz (GetPartitionBound k)"
  have kl: "key_list context' = map (\<lambda>j. InitTensor_start_key d + of_nat j) [0..<n]"
    using InitTensor_key_list[OF assms(1,2,3)] by (simp add: d_def n_def)
  have i: "i < n" using assms(6) kl by simp
  have "key_list context' ! i = InitTensor_start_key d + of_nat (0 + i)"
    unfolding kl using i by (intro nth_map_upt) simp
  then have "key_list context' ! i = word_of_int (d * 2 ^ 16 + 2 ^ 10) + of_nat i"
    using InitTensor_start_key_value[of d] assms(4,5) by (simp add: d_def)
  then show v: "key_list context' ! i = word_of_int (declared_key context * 2 ^ 16 + 2 ^ 10 + int i)"
    by (simp add: d_def)
  show u: "uint (key_list context' ! i) = declared_key context * 2 ^ 16 + 2 ^ 10 + int i" if "i < 1024"
  proof -
    have "0 \<le> d * 2 ^ 16 + 2 ^ 10 + int i" using assms(4) by (simp add: d_def)
    moreover have "d * 2 ^ 16 + 2 ^ 10 + int i < 2 ^ 64" using assms(5) that by (simp add: d_def)
    ultimately show ?thesis unfolding v d_def[symmetric] by (rule uint_key)
  qed
  show "uint (key_list context' ! i) mod 2 ^ 10 = int i" if "i < 1024"
    unfolding u[OF that] using that by (rule low_bits)
qed

lemma InitTensor_keys_next:
  assumes "\<not> initialized context" and "key_list context = []"
    and "InitTensor k context sz dtype_len cpubuff_given g = Some (Inr (context', g'))"
    and "i + 1 < length (key_list context')"
  shows "key_list context' ! (i + 1) = key_list context' ! i + 1"
proof -
  define d where "d = declared_key context"
  define n where "n = ceil_div sz (GetPartitionBound k)"
  have kl: "key_list context' = map (\<lambda>j. InitTensor_start_key d + of_nat j) [0..<n]"
    using InitTensor_key_list[OF assms(1,2,3)] by (simp add: d_def n_def)
  have i: "i + 1 < n" using assms(4) kl by simp
  have "key_list context' ! (i + 1) = InitTensor_start_key d + of_nat (0 + (i + 1))"
    unfolding kl using i by (intro nth_map_upt) simp
  moreover have "key_list context' ! i = InitTensor_start_key d + of_nat (0 + i)"
    unfolding kl using i by (intro nth_map_upt) simp
  ultimately show ?thesis by simp
qed

lemma InitTensorP2P_keys:
  assumes "\<not> initialized context" and "key_list context = []"
    and "InitTensorP2P k context sz sender0 receiver0 g = Some (Inr (context', g'))"
    and "0 \<le> declared_key context" and "declared_key context < 2 ^ 16"
    and "s = (if sender0 = - 1 then rank k else sender0)" and "0 \<le> s" and "s < 2 ^ 32"
    and "i < length (key_list context')" and "i < 1024"
  shows "key_list context' ! i
           = word_of_int (s * 2 ^ 32 + declared_key context * 2 ^ 16 + 2 * 2 ^ 10 + int i)"
    and "uint (key_list context' ! i) div 2 ^ 32 = s"
    and "uint (key_list context' ! i) mod 2 ^ 10 = int i"
proof -
  define d where "d = declared_key context"
  define n where "n = ceil_div sz (GetPartitionBound k)"
  have kl: "key_list context' = map (\<lambda>j. InitTensorP2P_start_key s d + of_nat j) [0..<n]"
    using InitTensorP2P_key_list[OF assms(1,2,3)] assms(6) by (simp add: d_def n_def)
  have i: "i < n" using assms(9) kl by simp
  have "key_list context' ! i = InitTensorP2P_start_key s d + of_nat (0 + i)"
    unfolding kl using i by (intro nth_map_upt) simp
  then have "key_list context' ! i = word_of_int (s * 2 ^ 32 + d * 2 ^ 16 + 2 * 2 ^ 10) + of_nat i"
    by (simp only: InitTensorP2P_start_key_value add_0)
  then show v: "key_list context' ! i
           = word_of_int (s * 2 ^ 32 + declared_key context * 2 ^ 16 + 2 * 2 ^ 10 + int i)"
    by (simp add: d_def)
  have lo: "0 \<le> d * 2 ^ 16 + 2 * 2 ^ 10 + int i" "d * 2 ^ 16 + 2 * 2 ^ 10 + int i < 2 ^ 32"
    using assms(4,5,10) by (simp_all add: d_def)
  have "0 \<le> s * 2 ^ 32 + d * 2 ^ 16 + 2 * 2 ^ 10 + int i" using assms(7) lo(1) by simp
  moreover have "s * 2 ^ 32 + d * 2 ^ 16 + 2 * 2 ^ 10 + int i < 2 ^ 64"
    using assms(8) lo(2) by simp
  ultimately have u: "uint (key_list context' ! i) = s * 2 ^ 32 + d * 2 ^ 16 + 2 * 2 ^ 10 + int i"
    unfolding v d_def[symmetric] by (rule uint_key)
  show "uint (key_list context' ! i) div 2 ^ 32 = s"
    unfolding u using lo by simp
  have e: "s * 2 ^ 32 + d * 2 ^ 16 + 2 * 2 ^ 10 + int i = int i + (s * 4194304 + d * 64 + 2) * 1024"
    by simp
  have "(s * 2 ^ 32 + d * 2 ^ 16 + 2 * 2 ^ 10 + int i) mod 1024 = int i mod 1024"
    unfolding e by (simp only: mod_mult_self1)
  then show "uint (key_list context' ! i) mod 2 ^ 10 = int i"
    unfolding u using assms(10) by simp
qed

text \<open>
  The low ten bits do not always go up by one.  A tensor of 4,194,305 bytes under a bound
  of 4096 bytes has 1025 partitions; the keys of partitions 1023 and 1024 are 2047 and
  2048, with the low ten bits 1023 and 0.
\<close>

theorem InitTensor_low_bits_wrap:
  "length (key_list_of (InitTensor demo_knobs_local demo_context 4194305 4 False demo_global))
     = 1025
   \<and> uint (key_list_of (InitTensor demo_knobs_local demo_context 4194305 4 False demo_global)
             ! 1023) mod 2 ^ 10 = 1023
   \<and> uint (key_list_of (InitTensor demo_knobs_local demo_context 4194305 4 False demo_global)
             ! 1024) mod 2 ^ 10 = 0"
proof -
  have "map (\<lambda>j. (1024 :: 64 word) + of_nat j) [0..<1025] ! 1023 = 1024 + of_nat (0 + 1023)"
    by (rule nth_map_upt) simp
  moreover have "map (\<lambda>j. (1024 :: 64 word) + of_nat j) [0..<1025] ! 1024 = 1024 + of_nat (0 + 1024)"
    by (rule nth_map_upt) simp
  ultimately show ?thesis
    unfolding demo_init_local key_list_of_def by (simp del: upt_rec_numeral)
qed
text \<open>
  Claim C5, amended.  \<^verbatim>\<open>InitTensor\<close>, on a context that is not yet initialised, with
  declared key \<open>0 \<le> d < 2 ^ 15\<close>, makes the \<open>i\<close>-th entry (from 0) of the key list
  \<open>(d << 16) + (PUSH_PULL_OP << 10) + i\<close>, each key one more than the one before it, and for
  \<open>i < 2 ^ 10\<close> (the layout allows for \<open>2 ^ 10\<close> partitions of a tensor) the low ten bits of
  the key are \<open>i\<close>, so that they go up by exactly one from a partition to the next.
  \<^verbatim>\<open>InitTensorP2P\<close>, with \<open>0 \<le> d < 2 ^ 16\<close>, makes it
  \<open>(sender << 32) + (d << 16) + (P2P_OP << 10) + i\<close>; for \<open>i < 2 ^ 10\<close> and a sender rank
  \<open>0 \<le> s < 2 ^ 32\<close> the bits 63..32 of the key are the sender rank and the low ten bits
  are \<open>i\<close>.
\<close>

theorem InitTensor_key_layout:
  "(\<not> initialized context \<and> key_list context = []
      \<and> InitTensor k context sz dtype_len cpubuff_given g = Some (Inr (context', g'))
      \<and> 0 \<le> declared_key context \<and> declared_key context < 2 ^ 15
      \<and> i < length (key_list context')
    \<longrightarrow> key_list context' ! i
          = word_of_int (declared_key context * 2 ^ 16
                          + int (OperationType_value PUSH_PULL_OP) * 2 ^ 10 + int i)
        \<and> (i + 1 < length (key_list context')
              \<longrightarrow> key_list context' ! (i + 1) = key_list context' ! i + 1)
        \<and> (i < 1024
              \<longrightarrow> uint (key_list context' ! i)
                    = declared_key context * 2 ^ 16
                        + int (OperationType_value PUSH_PULL_OP) * 2 ^ 10 + int i
                  \<and> uint (key_list context' ! i) mod 2 ^ 10 = int i)
        \<and> (i + 1 < length (key_list context') \<and> i + 1 < 1024
              \<longrightarrow> uint (key_list context' ! (i + 1)) mod 2 ^ 10
                    = uint (key_list context' ! i) mod 2 ^ 10 + 1))
   \<and> (\<not> initialized pcontext \<and> key_list pcontext = []
      \<and> InitTensorP2P k pcontext psz sender0 receiver0 pg = Some (Inr (pcontext', pg'))
      \<and> 0 \<le> declared_key pcontext \<and> declared_key pcontext < 2 ^ 16
      \<and> s = (if sender0 = - 1 then rank k else sender0) \<and> 0 \<le> s \<and> s < 2 ^ 32
      \<and> n < length (key_list pcontext') \<and> n < 1024
    \<longrightarrow> key_list pcontext' ! n
          = word_of_int (s * 2 ^ 32 + declared_key pcontext * 2 ^ 16
                          + int (OperationType_value P2P_OP) * 2 ^ 10 + int n)
        \<and> uint (key_list pcontext' ! n) div 2 ^ 32 = s
        \<and> uint (key_list pcontext' ! n) mod 2 ^ 10 = int n)"
proof (intro conjI impI)
  assume h: "\<not> initialized context \<and> key_list context = []
      \<and> InitTensor k context sz dtype_len cpubuff_given g = Some (Inr (context', g'))
      \<and> 0 \<le> declared_key context \<and> declared_key context < 2 ^ 15
      \<and> i < length (key_list context')"
  then have a: "\<not> initialized context" "key_list context = []"
      "InitTensor k context sz dtype_len cpubuff_given g = Some (Inr (context', g'))"
      "0 \<le> declared_key context" "declared_key context < 2 ^ 15"
      "i < length (key_list context')"
    by simp_all
  show "key_list context' ! i
          = word_of_int (declared_key context * 2 ^ 16
                          + int (OperationType_value PUSH_PULL_OP) * 2 ^ 10 + int i)"
    using InitTensor_keys(1)[OF a] by simp
  {
    assume n: "i + 1 < length (key_list context')"
    show "key_list context' ! (i + 1) = key_list context' ! i + 1"
      using InitTensor_keys_next[OF a(1,2,3) n] .
  }
  {
    assume l: "i < 1024"
    show "uint (key_list context' ! i)
            = declared_key context * 2 ^ 16
                + int (OperationType_value PUSH_PULL_OP) * 2 ^ 10 + int i"
      using InitTensor_keys(2)[OF a l] by simp
    show "uint (key_list context' ! i) mod 2 ^ 10 = int i"
      using InitTensor_keys(3)[OF a l] .
  }
  {
    assume n: "i + 1 < length (key_list context') \<and> i + 1 < 1024"
    then have n1: "i + 1 < length (key_list context')" and l1: "i + 1 < 1024" and l: "i < 1024"
      by simp_all
    show "uint (key_list context' ! (i + 1)) mod 2 ^ 10
            = uint (key_list context' ! i) mod 2 ^ 10 + 1"
      using InitTensor_keys(3)[OF a(1,2,3,4,5) n1 l1] InitTensor_keys(3)[OF a l] by simp
  }
next
  assume h: "\<not> initialized pcontext \<and> key_list pcontext = []
      \<and> InitTensorP2P k pcontext psz sender0 receiver0 pg = Some (Inr (pcontext', pg'))
      \<and> 0 \<le> declared_key pcontext \<and> declared_key pcontext < 2 ^ 16
      \<and> s = (if sender0 = - 1 then rank k else sender0) \<and> 0 \<le> s \<and> s < 2 ^ 32
      \<and> n < length (key_list pcontext') \<and> n < 1024"
  then have a: "\<not> initialized pcontext" "key_list pcontext = []"
      "InitTensorP2P k pcontext psz sender0 receiver0 pg = Some (Inr (pcontext', pg'))"
      "0 \<le> declared_key pcontext" "declared_key pcontext < 2 ^ 16"
      "s = (if sender0 = - 1 then rank k else sender0)" "0 \<le> s" "s < 2 ^ 32"
      "n < length (key_list pcontext')" "n < 1024"
    by simp_all
  show "key_list pcontext' ! n
          = word_of_int (s * 2 ^ 32 + declared_key pcontext * 2 ^ 16
                          + int (OperationType_value P2P_OP) * 2 ^ 10 + int n)"
    using InitTensorP2P_keys(1)[OF a] by simp
  show "uint (key_list pcontext' ! n) div 2 ^ 32 = s"
    using InitTensorP2P_keys(2)[OF a] .
  show "uint (key_list pcontext' ! n) mod 2 ^ 10 = int n"
    using InitTensorP2P_keys(3)[OF a] .
qed
text \<open>
  The gradient of 5,000,000 bytes under the default bound has the keys 1024 and 1025;
  the tensor sent from rank 1 has the keys \<open>2 ^ 32 + 2048\<close> and \<open>2 ^ 32 + 2049\<close>.
\<close>

theorem InitTensor_key_layout_witness:
  "\<not> initialized demo_context \<and> key_list demo_context = []
   \<and> InitTensor demo_knobs demo_context 5000000 4 False demo_global
       = Some (Inr (demo_initialised_context, demo_initialised))
   \<and> declared_key demo_context = 0
   \<and> length (key_list demo_initialised_context) = 2
   \<and> key_list demo_initialised_context ! 0 = 1024
   \<and> key_list demo_initialised_context ! (0 + 1) = key_list demo_initialised_context ! 0 + 1
   \<and> uint (key_list demo_initialised_context ! 0) mod 2 ^ 10 = 0
   \<and> uint (key_list demo_initialised_context ! (0 + 1)) mod 2 ^ 10 = 1
   \<and> \<not> initialized demo_p2p_context \<and> key_list demo_p2p_context = []
   \<and> InitTensorP2P demo_knobs_two demo_p2p_context 5000000 1 0 demo_global_two
       = Some (Inr (demo_p2p_initialised_context, demo_global_two))
   \<and> declared_key demo_p2p_context = 0
   \<and> length (key_list demo_p2p_initialised_context) = 2
   \<and> key_list demo_p2p_initialised_context ! 1 = 4294969345
   \<and> uint (key_list demo_p2p_initialised_context ! 1) div 2 ^ 32 = 1
   \<and> uint (key_list demo_p2p_initialised_context ! 1) mod 2 ^ 10 = 1"
  using InitTensor_key_layout[of demo_context demo_knobs 5000000 4 False demo_global
      demo_initialised_context demo_initialised 0 demo_p2p_context 5000000 1 0 demo_global_two
      demo_p2p_initialised_context demo_global_two 1 1]
    demo_init_tensor demo_init_p2p
  by (simp add: demo_context_def new_context_def demo_initialised_context_def
      demo_p2p_context_def demo_p2p_initialised_context_def)

end
